theory Spec2Isabelle
  imports Complex_Main
begin

section \<open>Data model (models/Movie.js, models/Booking.js)\<close>

text \<open>
  A JavaScript \<open>Date\<close> that is valid is its time value: the milliseconds since the epoch,
  an integer. \<open>toDateString\<close> prints the calendar day of the server's local zone; two
  dates print the same string exactly when they fall on the same local day, so the string
  is modelled by the day number. The server's zone is taken to be UTC.
  Mongoose \<open>Number\<close> fields that hold counts are integers; prices and amounts are
  rationals. A string is a list of code units below 256; characters beyond U+00FF are
  outside the model.
\<close>

definition msPerDay :: int where
  "msPerDay = 24 * 60 * 60 * 1000"

definition toDateString :: "int \<Rightarrow> int" where
  "toDateString d = d div msPerDay"

datatype status = Pending | Confirmed | Cancelled | Completed

datatype payment_method = Credit_card | Debit_card | Cash | Online

datatype role = User | Admin

record Showtime =
  showtimeId :: nat
  date :: int
  time :: string
  price :: rat
  totalSeats :: int
  availableSeats :: int
  isActive :: bool

record Movie =
  title :: string
  showtimes :: "Showtime list"

record Booking =
  user :: nat
  movie :: nat
  showtime_date :: int
  showtime_time :: string
  seats :: "string list"
  quantity :: int
  totalAmount :: rat
  status :: status
  paymentMethod :: payment_method
  bookingCode :: string
  bookingNotes :: "string option"
  cancelledAt :: "int option"
  cancelledBy :: "nat option"
  cancellationReason :: "string option"

text \<open>
  The persistent store: movies by identity, and the bookings collection. No route deletes
  a booking, so a booking's identity is its position in the collection.
\<close>

record db =
  movies :: "nat \<rightharpoonup> Movie"
  bookings :: "Booking list"

text \<open>The authenticated caller, \<open>req.user\<close>.\<close>

record ReqUser =
  uid :: nat
  userRole :: role

text \<open>
  The replies of the booking routes, by status code and message:
  \<open>ValidationFailed\<close> 400 "Validation failed";
  \<open>MovieNotFound\<close> 404 "Movie not found";
  \<open>ShowtimeNotFound\<close> 404 "Showtime not found or inactive";
  \<open>CapacityExceeded\<close> 400 "Not enough seats available";
  \<open>SeatConflict msg\<close> 400 with the message \<open>msg\<close>;
  \<open>BookingNotFound\<close> 404 "Booking not found";
  \<open>Forbidden\<close> 403 "Not authorized to cancel this booking";
  \<open>AlreadyCancelled\<close> 400 "Booking is already cancelled";
  \<open>CannotCancelCompleted\<close> 400 "Cannot cancel completed booking";
  \<open>CancellationWindowExpired\<close> 400 "Cannot cancel booking within 2 hours of showtime";
  \<open>ServerError\<close> 500, the handler's \<open>catch\<close>.
\<close>

datatype error =
    ValidationFailed
  | MovieNotFound
  | ShowtimeNotFound
  | CapacityExceeded
  | SeatConflict string
  | BookingNotFound
  | Forbidden
  | AlreadyCancelled
  | CannotCancelCompleted
  | CancellationWindowExpired
  | ServerError

section \<open>Doubles that hold integers\<close>

text \<open>
  The numbers of the booking routes that matter here are doubles whose value is an
  integer, or an integer divided by 2^53. A double keeps 53 significant bits: an
  arithmetic result with more is rounded to the nearest value that has 53, a tie going
  to the even one. \<open>bitlen\<close> is the number of significant bits of a natural number.
\<close>

fun bitlen :: "nat \<Rightarrow> nat" where
  "bitlen n = (if n = 0 then 0 else Suc (bitlen (n div 2)))"

declare bitlen.simps [simp del]

definition roundToDouble :: "nat \<Rightarrow> nat" where
  "roundToDouble n =
     (let s = bitlen n - 53; q = n div 2 ^ s; r = n mod 2 ^ s
      in if 2 * r < 2 ^ s then q * 2 ^ s
         else if 2 * r = 2 ^ s \<and> even q then q * 2 ^ s
         else (q + 1) * 2 ^ s)"

text \<open>The double nearest to an integer; \<open>None\<close> when it is not finite (the rounded magnitude
  reaches 2^1024).\<close>

definition toNumber :: "int \<Rightarrow> int option" where
  "toNumber x =
     (let v = roundToDouble (nat \<bar>x\<bar>)
      in if v < 2 ^ 1024 then Some (sgn x * int v) else None)"

text \<open>The operators \<open>*\<close> and \<open>+\<close> on doubles that hold integers.\<close>

definition dmul :: "int \<Rightarrow> int \<Rightarrow> int option" where
  "dmul a b = toNumber (a * b)"

definition dadd :: "int \<Rightarrow> int \<Rightarrow> int option" where
  "dadd a b = toNumber (a + b)"

section \<open>Booking-code generation (bookingSchema.pre('save'))\<close>

text \<open>
  \<open>Math.random()\<close> returns a double in [0, 1) that is a multiple of 2^-53. The caller
  supplies the sequence of raw draws of one request, \<open>rnd\<close>; the i-th call of
  \<open>Math.random\<close> returns the double \<open>math_random (rnd i) / 2^53\<close>.
\<close>

definition chars :: string where
  "chars = ''ABCDEFGHIJKLMNOPQRSTUVWXYZ0123456789''"

definition math_random :: "nat \<Rightarrow> nat" where
  "math_random n = n mod 2 ^ 53"

definition charAt :: "string \<Rightarrow> int \<Rightarrow> string" where
  "charAt s i = (if 0 \<le> i \<and> i < int (length s) then [s ! nat i] else [])"

text \<open>
  \<open>Math.floor(Math.random() * chars.length)\<close> for the draw with numerator \<open>k\<close>: the
  product \<open>k * length / 2^53\<close> is rounded to a double (scaling by 2^53 does not change
  which bits are kept), then floored.
\<close>

definition randomIndex :: "nat \<Rightarrow> nat \<Rightarrow> int" where
  "randomIndex k len = int (roundToDouble (k * len) div 2 ^ 53)"

text \<open>
  \<open>generateCode\<close>: eight rounds of \<open>result += chars.charAt(Math.floor(Math.random() *
  chars.length))\<close>; \<open>off\<close> counts the draws already consumed.
\<close>

definition generateCode :: "(nat \<Rightarrow> nat) \<Rightarrow> nat \<Rightarrow> string" where
  "generateCode rnd off =
     concat (map (\<lambda>i. charAt chars (randomIndex (math_random (rnd (off + i))) (length chars)))
       [0..<8])"

text \<open>
  The \<open>while (!isUnique)\<close> loop: draw a candidate, look it up among the codes of the
  stored bookings (\<open>findOne({ bookingCode })\<close>), stop at the first one that is free. The
  loop has no bound, so it is a partial function: \<open>None\<close> is the loop that never ends.
\<close>

partial_function (option) uniqueCode :: "(nat \<Rightarrow> nat) \<Rightarrow> nat \<Rightarrow> string list \<Rightarrow> string option" where
  [code]: "uniqueCode rnd off existing =
     (let bookingCode = generateCode rnd off in
      if bookingCode \<in> set existing then uniqueCode rnd (off + 8) existing
      else Some bookingCode)"

section \<open>Create booking (POST /api/bookings)\<close>

text \<open>The request body after the validators' sanitizers; \<open>showtimeDate\<close> is the time value
  of \<open>new Date(showtimeDate)\<close>.\<close>

record BookingRequest =
  movieId :: nat
  showtimeDate :: int
  showtimeTime :: string
  reqSeats :: "string list"
  reqQuantity :: int
  reqPaymentMethod :: payment_method
  reqNotes :: "string option"

text \<open>The express-validator chain: a time that is not empty, at least one seat, a quantity
  of at least 1, notes of at most 500 characters. Identifiers, dates and the payment
  method are well-formed by their types.\<close>

definition validCreate :: "BookingRequest \<Rightarrow> bool" where
  "validCreate r =
     (showtimeTime r \<noteq> [] \<and> 1 \<le> length (reqSeats r) \<and> 1 \<le> reqQuantity r \<and>
      (case reqNotes r of None \<Rightarrow> True | Some n \<Rightarrow> length n \<le> 500))"

text \<open>The predicate of \<open>movie.showtimes.find\<close> in the create route.\<close>

definition matchesRequest :: "int \<Rightarrow> string \<Rightarrow> Showtime \<Rightarrow> bool" where
  "matchesRequest d t st =
     (toDateString (date st) = toDateString d \<and> time st = t \<and> isActive st)"

text \<open>The query of \<open>Booking.find\<close> in the create route: same movie, the same stored date
  (equality of time values), the same time label, status pending or confirmed.\<close>

definition existingBookings :: "Booking list \<Rightarrow> nat \<Rightarrow> int \<Rightarrow> string \<Rightarrow> Booking list" where
  "existingBookings bs mid d t =
     filter (\<lambda>b. movie b = mid \<and> showtime_date b = d \<and> showtime_time b = t \<and>
                 (status b = Pending \<or> status b = Confirmed)) bs"

definition bookedSeats :: "Booking list \<Rightarrow> nat \<Rightarrow> int \<Rightarrow> string \<Rightarrow> string list" where
  "bookedSeats bs mid d t = concat (map seats (existingBookings bs mid d t))"

definition conflictingSeats :: "string list \<Rightarrow> string list \<Rightarrow> string list" where
  "conflictingSeats requestedSeats booked = filter (\<lambda>seat. seat \<in> set booked) requestedSeats"

fun join :: "string \<Rightarrow> string list \<Rightarrow> string" where
  "join sep [] = []"
| "join sep [x] = x"
| "join sep (x # y # ys) = x @ sep @ join sep (y # ys)"

definition conflictMessage :: "string list \<Rightarrow> string" where
  "conflictMessage cs = ''Seats '' @ join '', '' cs @ '' are already booked''"

text \<open>\<open>find\<close> returns the first matching subdocument, and the assignment to its field
  changes it in place: the first match of the list is replaced.\<close>

fun update_first :: "('a \<Rightarrow> bool) \<Rightarrow> ('a \<Rightarrow> 'a) \<Rightarrow> 'a list \<Rightarrow> 'a list" where
  "update_first P f [] = []"
| "update_first P f (x # xs) = (if P x then f x # xs else x # update_first P f xs)"

definition newBooking :: "nat \<Rightarrow> BookingRequest \<Rightarrow> rat \<Rightarrow> string \<Rightarrow> Booking" where
  "newBooking u r amount code =
     \<lparr> user = u, movie = movieId r, showtime_date = showtimeDate r,
       showtime_time = showtimeTime r, seats = reqSeats r, quantity = reqQuantity r,
       totalAmount = amount, status = Pending, paymentMethod = reqPaymentMethod r,
       bookingCode = code, bookingNotes = reqNotes r, cancelledAt = None, cancelledBy = None,
       cancellationReason = None \<rparr>"

text \<open>
  \<open>Booking.create\<close> of a new document. Mongoose validates a document before its
  pre-save hooks run, so the schema validators come first: the required fields (a
  required string must not be empty), a seat list that is not empty, a quantity of at
  least 1, a total amount that is not negative, notes of at most 500 characters.
  \<open>code0\<close> is the \<open>bookingCode\<close> the caller put in the document, if any. A document that
  does not validate is rejected and nothing is stored; the rejection is an exception,
  which the handler's \<open>catch\<close> answers with 500. Only then does the hook draw the code
  (replacing the one supplied), and the document is inserted.
\<close>

definition schemaValid :: "string option \<Rightarrow> BookingRequest \<Rightarrow> rat \<Rightarrow> bool" where
  "schemaValid code0 r amount =
     ((case code0 of None \<Rightarrow> False | Some c \<Rightarrow> c \<noteq> []) \<and>
      showtimeTime r \<noteq> [] \<and> reqSeats r \<noteq> [] \<and> 1 \<le> reqQuantity r \<and> 0 \<le> amount \<and>
      (case reqNotes r of None \<Rightarrow> True | Some n \<Rightarrow> length n \<le> 500))"

definition Booking_create ::
  "(nat \<Rightarrow> nat) \<Rightarrow> string option \<Rightarrow> nat \<Rightarrow> BookingRequest \<Rightarrow> rat \<Rightarrow> db \<Rightarrow>
     ((error + Booking) \<times> db) option" where
  "Booking_create rnd code0 u r amount s =
     (if \<not> schemaValid code0 r amount then Some (Inl ServerError, s)
      else case uniqueCode rnd 0 (map bookingCode (bookings s)) of
             None \<Rightarrow> None
           | Some code \<Rightarrow>
               (let booking = newBooking u r amount code
                in Some (Inr booking, s\<lparr>bookings := bookings s @ [booking]\<rparr>)))"

text \<open>\<open>showtime.availableSeats -= quantity; await movie.save()\<close>. The capacity check has
  passed, so the decremented counter is not negative and the save validates.\<close>

definition decrementSeats :: "BookingRequest \<Rightarrow> Movie \<Rightarrow> db \<Rightarrow> db" where
  "decrementSeats r m s =
     s\<lparr>movies := (movies s)(movieId r \<mapsto>
         m\<lparr>showtimes := update_first (matchesRequest (showtimeDate r) (showtimeTime r))
              (\<lambda>st. st\<lparr>availableSeats := availableSeats st - reqQuantity r\<rparr>) (showtimes m)\<rparr>)\<rparr>"

text \<open>The handler. The result is the reply and the store after the request; \<open>None\<close> is a
  request whose code loop never ends. The document the handler passes to
  \<open>Booking.create\<close> has no \<open>bookingCode\<close>.\<close>

definition createBooking ::
  "(nat \<Rightarrow> nat) \<Rightarrow> ReqUser \<Rightarrow> BookingRequest \<Rightarrow> db \<Rightarrow> ((error + Booking) \<times> db) option" where
  "createBooking rnd u r s =
     (if \<not> validCreate r then Some (Inl ValidationFailed, s)
      else case movies s (movieId r) of
        None \<Rightarrow> Some (Inl MovieNotFound, s)
      | Some m \<Rightarrow>
          (case find (matchesRequest (showtimeDate r) (showtimeTime r)) (showtimes m) of
             None \<Rightarrow> Some (Inl ShowtimeNotFound, s)
           | Some st \<Rightarrow>
               if availableSeats st < reqQuantity r then Some (Inl CapacityExceeded, s)
               else
                 let conflicting = conflictingSeats (reqSeats r)
                       (bookedSeats (bookings s) (movieId r) (showtimeDate r) (showtimeTime r))
                 in if 0 < length conflicting
                    then Some (Inl (SeatConflict (conflictMessage conflicting)), s)
                    else
                      (case Booking_create rnd None (uid u) r (price st * rat_of_int (reqQuantity r)) s of
                         None \<Rightarrow> None
                       | Some (Inl e, s1) \<Rightarrow> Some (Inl e, s1)
                       | Some (Inr booking, s1) \<Rightarrow> Some (Inr booking, decrementSeats r m s1))))"

section \<open>Cancel booking (PUT /api/bookings/:id/cancel)\<close>

text \<open>
  \<open>parseInt\<close> of a string: skip leading white space (tab, line feed, vertical tab, form
  feed, carriage return, space, no-break space), take an optional sign, a \<open>0x\<close> prefix
  switches to radix 16, then read the longest run of digits. The result is the double
  nearest to the integer read. \<open>None\<close> is a result that is not finite: \<open>NaN\<close> when there
  is no digit, an infinity when the integer is too large; \<open>setHours\<close>, the only reader of
  the result, treats the two alike.
\<close>

definition isWhiteSpace :: "char \<Rightarrow> bool" where
  "isWhiteSpace c = (of_char c \<in> {9, 10, 11, 12, 13, 32, 160 :: nat})"

definition digitValue :: "char \<Rightarrow> nat option" where
  "digitValue c =
     (let n = (of_char c :: nat) in
      if 48 \<le> n \<and> n \<le> 57 then Some (n - 48)
      else if 97 \<le> n \<and> n \<le> 102 then Some (n - 87)
      else if 65 \<le> n \<and> n \<le> 70 then Some (n - 55)
      else None)"

definition isDigit :: "nat \<Rightarrow> char \<Rightarrow> bool" where
  "isDigit R c = (case digitValue c of None \<Rightarrow> False | Some v \<Rightarrow> v < R)"

definition digitsValue :: "nat \<Rightarrow> string \<Rightarrow> int" where
  "digitsValue R Z = foldl (\<lambda>a c. a * int R + int (case digitValue c of None \<Rightarrow> 0 | Some v \<Rightarrow> v)) 0 Z"

definition parseInt :: "string \<Rightarrow> int option" where
  "parseInt inputString =
     (let S = dropWhile isWhiteSpace inputString;
          sign = (if take 1 S = ''-'' then - 1 else 1 :: int);
          S1 = (if take 1 S = ''-'' \<or> take 1 S = ''+'' then drop 1 S else S);
          R = (if take 2 S1 = ''0x'' \<or> take 2 S1 = ''0X'' then 16 else 10 :: nat);
          S2 = (if R = 16 then drop 2 S1 else S1);
          Z = takeWhile (isDigit R) S2
      in if Z = [] then None else toNumber (sign * digitsValue R Z))"

text \<open>\<open>String.prototype.split\<close> on a one-character separator.\<close>

fun split :: "char \<Rightarrow> string \<Rightarrow> string list" where
  "split c [] = [[]]"
| "split c (x # xs) =
     (if x = c then [] # split c xs
      else (case split c xs of [] \<Rightarrow> [[x]] | p # ps \<Rightarrow> (x # p) # ps))"

text \<open>The destructuring \<open>[hours, minutes]\<close>: a missing element is \<open>undefined\<close>, which
  \<open>parseInt\<close> reads as the string "undefined".\<close>

definition element :: "string list \<Rightarrow> nat \<Rightarrow> string" where
  "element xs i = (if i < length xs then xs ! i else ''undefined'')"

text \<open>
  \<open>setHours(h, m, 0, 0)\<close> on a valid date, after the language definition: \<open>MakeTime\<close>
  is \<open>h * msPerHour + m * msPerMinute\<close> (seconds and milliseconds are 0), \<open>MakeDate\<close>
  is \<open>day * msPerDay + time\<close> for the day of the date, both in double arithmetic, and
  \<open>TimeClip\<close> refuses a result beyond the 8.64e15 ms a Date can hold. An argument or an
  intermediate result that is not finite makes the date invalid (\<open>None\<close>).
\<close>

definition msPerHour :: int where
  "msPerHour = 60 * 60 * 1000"

definition msPerMinute :: int where
  "msPerMinute = 60 * 1000"

definition MakeTime :: "int \<Rightarrow> int \<Rightarrow> int option" where
  "MakeTime hour minute =
     Option.bind (dmul hour msPerHour) (\<lambda>a. Option.bind (dmul minute msPerMinute) (\<lambda>b. dadd a b))"

definition MakeDate :: "int \<Rightarrow> int \<Rightarrow> int option" where
  "MakeDate day t = Option.bind (dmul day msPerDay) (\<lambda>a. dadd a t)"

definition TimeClip :: "int \<Rightarrow> int option" where
  "TimeClip t = (if \<bar>t\<bar> \<le> 8640000000000000 then Some t else None)"

definition setHours :: "int \<Rightarrow> int option \<Rightarrow> int option \<Rightarrow> int option" where
  "setHours d h m =
     (case h of None \<Rightarrow> None | Some hours \<Rightarrow>
      (case m of None \<Rightarrow> None | Some minutes \<Rightarrow>
        Option.bind (MakeTime hours minutes)
          (\<lambda>t. Option.bind (MakeDate (d div msPerDay) t) TimeClip)))"

definition showtimeDateTime :: "Booking \<Rightarrow> int option" where
  "showtimeDateTime booking =
     (let parts = split CHR '':'' (showtime_time booking)
      in setHours (showtime_date booking) (parseInt (element parts 0)) (parseInt (element parts 1)))"

text \<open>
  \<open>hoursDiff = (showtimeDateTime.getTime() - now.getTime()) / (1000 * 60 * 60)\<close>, \<open>NaN\<close>
  (here \<open>None\<close>) for an invalid date. The difference of two time values is an integer below
  2^55 in size; its double quotient by 3600000 is below 2 exactly when the exact quotient
  is, the nearest quotients of integers being 2 - 1/3600000 and 2 itself.
\<close>

definition hoursDiff :: "int \<Rightarrow> Booking \<Rightarrow> rat option" where
  "hoursDiff now booking =
     (case showtimeDateTime booking of None \<Rightarrow> None
      | Some t \<Rightarrow> Some (rat_of_int (t - now) / (1000 * 60 * 60)))"

text \<open>The test \<open>hoursDiff < 2\<close>; a comparison with \<open>NaN\<close> is false.\<close>

definition withinTwoHours :: "int \<Rightarrow> Booking \<Rightarrow> bool" where
  "withinTwoHours now booking = (case hoursDiff now booking of None \<Rightarrow> False | Some h \<Rightarrow> h < 2)"

definition findById :: "'a list \<Rightarrow> nat \<Rightarrow> 'a option" where
  "findById xs i = (if i < length xs then Some (xs ! i) else None)"

definition validReason :: "string option \<Rightarrow> bool" where
  "validReason reason = (case reason of None \<Rightarrow> True | Some x \<Rightarrow> length x \<le> 200)"

text \<open>\<open>req.body.reason || dflt\<close>: a missing or empty reason gives the default.\<close>

definition reasonOr :: "string option \<Rightarrow> string \<Rightarrow> string" where
  "reasonOr reason dflt = (case reason of None \<Rightarrow> dflt | Some x \<Rightarrow> if x = [] then dflt else x)"

text \<open>The predicate of \<open>movie.showtimes.find\<close> in the cancel route: calendar day and time
  label, with no test of \<open>isActive\<close>.\<close>

definition matchesBooking :: "Booking \<Rightarrow> Showtime \<Rightarrow> bool" where
  "matchesBooking booking st =
     (toDateString (date st) = toDateString (showtime_date booking) \<and>
      time st = showtime_time booking)"

text \<open>
  The seat restoration after the cancelled booking is saved. \<open>movie.save()\<close> validates the
  changed counter against the schema's \<open>min: 0\<close>; a failure throws, the movie is not
  stored and the handler answers 500.
\<close>

definition restoreSeats :: "Booking \<Rightarrow> db \<Rightarrow> (error + Booking) \<times> db" where
  "restoreSeats booking s =
     (case movies s (movie booking) of
        None \<Rightarrow> (Inr booking, s)
      | Some m \<Rightarrow>
          (case find (matchesBooking booking) (showtimes m) of
             None \<Rightarrow> (Inr booking, s)
           | Some st \<Rightarrow>
               if availableSeats st + quantity booking < 0 then (Inl ServerError, s)
               else (Inr booking,
                     s\<lparr>movies := (movies s)(movie booking \<mapsto>
                         m\<lparr>showtimes := update_first (matchesBooking booking)
                              (\<lambda>st. st\<lparr>availableSeats := availableSeats st + quantity booking\<rparr>)
                              (showtimes m)\<rparr>)\<rparr>)))"

text \<open>The four assignments to the booking before \<open>booking.save()\<close>.\<close>

definition markCancelled :: "int \<Rightarrow> ReqUser \<Rightarrow> string option \<Rightarrow> Booking \<Rightarrow> Booking" where
  "markCancelled now u reason booking =
     booking\<lparr>status := Cancelled, cancelledAt := Some now, cancelledBy := Some (uid u),
       cancellationReason := Some (reasonOr reason ''Cancelled by user'')\<rparr>"

definition cancelBooking ::
  "int \<Rightarrow> ReqUser \<Rightarrow> nat \<Rightarrow> string option \<Rightarrow> db \<Rightarrow> (error + Booking) \<times> db" where
  "cancelBooking now u bid reason s =
     (if \<not> validReason reason then (Inl ValidationFailed, s)
      else case findById (bookings s) bid of
        None \<Rightarrow> (Inl BookingNotFound, s)
      | Some booking \<Rightarrow>
          if user booking \<noteq> uid u \<and> userRole u \<noteq> Admin then (Inl Forbidden, s)
          else if status booking = Cancelled then (Inl AlreadyCancelled, s)
          else if status booking = Completed then (Inl CannotCancelCompleted, s)
          else if withinTwoHours now booking then (Inl CancellationWindowExpired, s)
          else
            let booking' = markCancelled now u reason booking
            in restoreSeats booking' (s\<lparr>bookings := (bookings s)[bid := booking']\<rparr>))"

section \<open>Admin: update booking status (PUT /api/admin/bookings/:id/status)\<close>

text \<open>
  The admin router admits administrators only. The new status is one of the four by its
  type. The reason is not validated by the route; the schema's \<open>maxlength: 200\<close> makes
  \<open>booking.save()\<close> throw on a longer one.
\<close>

definition updateBookingStatus ::
  "int \<Rightarrow> ReqUser \<Rightarrow> nat \<Rightarrow> status \<Rightarrow> string option \<Rightarrow> db \<Rightarrow> (error + Booking) \<times> db" where
  "updateBookingStatus now u bid newStatus reason s =
     (if userRole u \<noteq> Admin then (Inl Forbidden, s)
      else case findById (bookings s) bid of
        None \<Rightarrow> (Inl BookingNotFound, s)
      | Some booking \<Rightarrow>
          let booking' =
                (if newStatus = Cancelled
                 then booking\<lparr>status := newStatus, cancelledAt := Some now,
                        cancelledBy := Some (uid u),
                        cancellationReason := Some (reasonOr reason ''Cancelled by admin'')\<rparr>
                 else booking\<lparr>status := newStatus\<rparr>)
          in if newStatus = Cancelled \<and> 200 < length (reasonOr reason ''Cancelled by admin'')
             then (Inl ServerError, s)
             else (Inr booking', s\<lparr>bookings := (bookings s)[bid := booking']\<rparr>))"

section \<open>Admin: update showtime (PUT /api/movies/:id/showtimes/:showtimeId)\<close>

text \<open>
  The request body is an object whose keys are visited in order. The validated keys are
  \<open>date\<close>, \<open>time\<close>, \<open>price\<close>, \<open>totalSeats\<close> and \<open>isActive\<close>; any other key of the
  schema, such as \<open>availableSeats\<close>, reaches the plain assignment of the last branch.
\<close>

datatype showtime_field =
    SetDate int
  | SetTime string
  | SetPrice rat
  | SetTotalSeats int
  | SetIsActive bool
  | SetAvailableSeats int

definition validField :: "showtime_field \<Rightarrow> bool" where
  "validField f =
     (case f of SetTime t \<Rightarrow> t \<noteq> [] | SetPrice p \<Rightarrow> 0 \<le> p | SetTotalSeats n \<Rightarrow> 1 \<le> n
      | _ \<Rightarrow> True)"

text \<open>One round of the \<open>forEach\<close> over the keys of the body.\<close>

fun setField :: "showtime_field \<Rightarrow> Showtime \<Rightarrow> Showtime" where
  "setField (SetDate d) showtime = showtime\<lparr>date := d\<rparr>"
| "setField (SetTotalSeats newTotalSeats) showtime =
     (let bookedSeats = totalSeats showtime - availableSeats showtime
      in showtime\<lparr>totalSeats := newTotalSeats,
                  availableSeats := max 0 (newTotalSeats - bookedSeats)\<rparr>)"
| "setField (SetTime t) showtime = showtime\<lparr>time := t\<rparr>"
| "setField (SetPrice p) showtime = showtime\<lparr>price := p\<rparr>"
| "setField (SetIsActive a) showtime = showtime\<lparr>isActive := a\<rparr>"
| "setField (SetAvailableSeats n) showtime = showtime\<lparr>availableSeats := n\<rparr>"

datatype showtime_error = UpdateForbidden | UpdateValidationFailed | UpdateMovieNotFound
  | UpdateShowtimeNotFound | UpdateServerError

definition updateShowtime ::
  "ReqUser \<Rightarrow> nat \<Rightarrow> nat \<Rightarrow> showtime_field list \<Rightarrow> db \<Rightarrow> (showtime_error + Showtime) \<times> db" where
  "updateShowtime u mid sid body s =
     (if userRole u \<noteq> Admin then (Inl UpdateForbidden, s)
      else if \<not> list_all validField body then (Inl UpdateValidationFailed, s)
      else case movies s mid of
        None \<Rightarrow> (Inl UpdateMovieNotFound, s)
      | Some m \<Rightarrow>
          (case find (\<lambda>st. showtimeId st = sid) (showtimes m) of
             None \<Rightarrow> (Inl UpdateShowtimeNotFound, s)
           | Some st \<Rightarrow>
               let showtime = fold setField body st
               in if availableSeats showtime < 0 then (Inl UpdateServerError, s)
                  else (Inr showtime,
                        s\<lparr>movies := (movies s)(mid \<mapsto>
                            m\<lparr>showtimes := update_first (\<lambda>st. showtimeId st = sid)
                                 (\<lambda>_. showtime) (showtimes m)\<rparr>)\<rparr>)))"

section \<open>The bounds of the seat counter\<close>

text \<open>The invariant of a showtime's counter: \<open>0 <= availableSeats <= totalSeats\<close>.\<close>

definition withinBounds :: "Showtime \<Rightarrow> bool" where
  "withinBounds st = (0 \<le> availableSeats st \<and> availableSeats st \<le> totalSeats st)"

section \<open>Seat exclusivity\<close>

text \<open>
  Active bookings are the pending and the confirmed ones. Two bookings are of the same slot
  when they agree on the movie, the stored timestamp and the time label, which is how the
  conflict scan of the create route compares them. A collection is seat-exclusive when
  no two active bookings of the same slot share a seat label.
\<close>

definition active :: "Booking \<Rightarrow> bool" where
  "active b = (status b = Pending \<or> status b = Confirmed)"

definition sameSlot :: "Booking \<Rightarrow> Booking \<Rightarrow> bool" where
  "sameSlot a b = (movie a = movie b \<and> showtime_date a = showtime_date b \<and>
     showtime_time a = showtime_time b)"

definition seatExclusive :: "Booking list \<Rightarrow> bool" where
  "seatExclusive bs =
     (\<forall>i < length bs. \<forall>j < length bs.
        i \<noteq> j \<and> active (bs ! i) \<and> active (bs ! j) \<and> sameSlot (bs ! i) (bs ! j) \<longrightarrow>
        set (seats (bs ! i)) \<inter> set (seats (bs ! j)) = {})"

section \<open>Sequences of saves\<close>

text \<open>A run of \<open>Booking.create\<close> calls, each with its own draws and its own document;
  \<open>None\<close> when one of them never returns.\<close>

fun createAll ::
  "((nat \<Rightarrow> nat) \<times> string option \<times> nat \<times> BookingRequest \<times> rat) list \<Rightarrow> db \<Rightarrow> db option" where
  "createAll [] s = Some s"
| "createAll ((rnd, code0, u, r, amount) # docs) s =
     (case Booking_create rnd code0 u r amount s of
        None \<Rightarrow> None
      | Some (_, s') \<Rightarrow> createAll docs s')"

section \<open>Example store\<close>

text \<open>A movie with one showtime of two seats at 19:30 on day 20000 (2024-10-04), two
  callers, and two draw sequences: \<open>rnd_A\<close> always draws 0, \<open>rnd_AS\<close> draws 0 eight times
  and 2^52 afterwards. \<open>ex_db\<close> has no booking; \<open>ex_db1\<close> holds a pending booking of
  seat A1 and has one seat left; \<open>ex_db_full\<close> holds a pending booking of both seats;
  \<open>ex_db_sold\<close> holds two pending bookings of one seat each. \<open>ex_db_morning\<close> holds a
  pending booking for 07:05 on day 20001, stored with a date 123 ms after midnight, and
  no movie.\<close>

definition ex_showtime :: Showtime where
  "ex_showtime = \<lparr>showtimeId = 0, date = 1728000000000, time = ''19:30'', price = 10,
     totalSeats = 2, availableSeats = 2, isActive = True\<rparr>"

definition ex_movie :: Movie where
  "ex_movie = \<lparr>title = ''Example'', showtimes = [ex_showtime]\<rparr>"

definition ex_db :: db where
  "ex_db = \<lparr>movies = [0 \<mapsto> ex_movie], bookings = []\<rparr>"

definition ex_user :: ReqUser where
  "ex_user = \<lparr>uid = 7, userRole = User\<rparr>"

definition ex_request :: "string list \<Rightarrow> int \<Rightarrow> int \<Rightarrow> BookingRequest" where
  "ex_request ss q d = \<lparr>movieId = 0, showtimeDate = d, showtimeTime = ''19:30'', reqSeats = ss,
     reqQuantity = q, reqPaymentMethod = Cash, reqNotes = None\<rparr>"

definition rnd_A :: "nat \<Rightarrow> nat" where
  "rnd_A i = 0"

definition rnd_AS :: "nat \<Rightarrow> nat" where
  "rnd_AS i = (if i < 8 then 0 else 2 ^ 52)"

definition ex_booking_A1 :: Booking where
  "ex_booking_A1 = newBooking 7 (ex_request [''A1''] 1 1728000000000) 10 ''AAAAAAAA''"

definition ex_db1 :: db where
  "ex_db1 = \<lparr>movies = [0 \<mapsto> ex_movie\<lparr>showtimes := [ex_showtime\<lparr>availableSeats := 1\<rparr>]\<rparr>],
      bookings = [ex_booking_A1]\<rparr>"

definition ex_admin :: ReqUser where
  "ex_admin = \<lparr>uid = 1, userRole = Admin\<rparr>"

definition ex_booking_A12 :: Booking where
  "ex_booking_A12 = newBooking 7 (ex_request [''A1'', ''A2''] 2 1728000000000) 20 ''AAAAAAAA''"

definition ex_db_full :: db where
  "ex_db_full = \<lparr>movies = [0 \<mapsto> ex_movie\<lparr>showtimes := [ex_showtime\<lparr>availableSeats := 0\<rparr>]\<rparr>],
      bookings = [ex_booking_A12]\<rparr>"

definition ex_booking_A2 :: Booking where
  "ex_booking_A2 = newBooking 7 (ex_request [''A2''] 1 1728000000000) 10 ''SSSSSSSS''"

definition ex_db_sold :: db where
  "ex_db_sold = \<lparr>movies = [0 \<mapsto> ex_movie\<lparr>showtimes := [ex_showtime\<lparr>availableSeats := 0\<rparr>]\<rparr>],
      bookings = [ex_booking_A1, ex_booking_A2]\<rparr>"



section \<open>Doubles and the code generator\<close>

lemma bitlen_le: "n < 2 ^ m \<Longrightarrow> bitlen n \<le> m"
proof (induction m arbitrary: n)
  case 0
  then show ?case by (simp add: bitlen.simps)
next
  case (Suc m)
  show ?case
  proof (cases "n = 0")
    case True
    then show ?thesis by (simp add: bitlen.simps)
  next
    case False
    from Suc.prems have "n div 2 < 2 ^ m" by simp
    from Suc.IH [OF this] False show ?thesis by (subst bitlen.simps) simp
  qed
qed

lemma bitlen_eq: "2 ^ m \<le> n \<Longrightarrow> n < 2 ^ Suc m \<Longrightarrow> bitlen n = Suc m"
proof (induction m arbitrary: n)
  case 0
  then have "n = 1" by simp
  then show ?case by (simp add: bitlen.simps)
next
  case (Suc m)
  from Suc.prems have "2 ^ m \<le> n div 2" "n div 2 < 2 ^ Suc m" by simp_all
  from Suc.IH [OF this] have "bitlen (n div 2) = Suc m" .
  moreover from Suc.prems have "n \<noteq> 0" by auto
  ultimately show ?case by (subst bitlen.simps) simp
qed

lemma roundToDouble_exact: "n < 2 ^ 53 \<Longrightarrow> roundToDouble n = n"
  using bitlen_le [of n 53] by (simp add: roundToDouble_def Let_def)

lemma roundToDouble_upper:
  "roundToDouble n \<le> n + 2 ^ (bitlen n - 53) div 2"
proof -
  let ?s = "bitlen n - 53"
  let ?q = "n div 2 ^ ?s"
  let ?r = "n mod 2 ^ ?s"
  have n: "n = ?q * 2 ^ ?s + ?r" by (simp only: div_mult_mod_eq)
  have down: "?q * 2 ^ ?s \<le> n + 2 ^ ?s div 2" using n by (metis le_add1 trans_le_add1)
  have up: "(?q + 1) * 2 ^ ?s \<le> n + 2 ^ ?s div 2" if "\<not> 2 * ?r < 2 ^ ?s"
  proof -
    from that have "2 ^ ?s \<le> 2 * ?r" by simp
    then have "2 ^ ?s - 2 ^ ?s div 2 \<le> ?r" by linarith
    moreover have "(?q + 1) * 2 ^ ?s = ?q * 2 ^ ?s + 2 ^ ?s" by (simp add: algebra_simps)
    moreover have "(2::nat) ^ ?s div 2 \<le> 2 ^ ?s" by simp
    ultimately have "(?q + 1) * 2 ^ ?s \<le> ?q * 2 ^ ?s + ?r + 2 ^ ?s div 2" by linarith
    with n show ?thesis by simp
  qed
  show ?thesis
    unfolding roundToDouble_def Let_def using down up by auto
qed

lemma randomIndex_range:
  assumes "k < 2 ^ 53"
  shows "0 \<le> randomIndex k 36 \<and> randomIndex k 36 < 36"
proof -
  have k: "k * 36 + 36 \<le> 36 * 2 ^ 53" using assms by simp
  then have "k * 36 < 2 ^ 59" by simp
  then have "bitlen (k * 36) \<le> 59" by (rule bitlen_le)
  then have "bitlen (k * 36) - 53 \<le> 6" by simp
  then have "(2::nat) ^ (bitlen (k * 36) - 53) \<le> 2 ^ 6" by (simp only: power_increasing_iff)
  then have "(2::nat) ^ (bitlen (k * 36) - 53) div 2 \<le> 32" by simp
  with roundToDouble_upper [of "k * 36"] have "roundToDouble (k * 36) \<le> k * 36 + 32" by linarith
  with k have "roundToDouble (k * 36) < 36 * 2 ^ 53" by simp
  then have "roundToDouble (k * 36) div 2 ^ 53 < 36"
    by (simp add: less_mult_imp_div_less)
  then show ?thesis by (simp add: randomIndex_def)
qed

lemma toNumber_exact: "\<bar>x\<bar> < 2 ^ 53 \<Longrightarrow> toNumber x = Some x"
proof -
  assume a: "\<bar>x\<bar> < 2 ^ 53"
  then have "nat \<bar>x\<bar> < 2 ^ 53" by (simp add: nat_less_iff)
  then have r: "roundToDouble (nat \<bar>x\<bar>) = nat \<bar>x\<bar>" by (rule roundToDouble_exact)
  have "nat \<bar>x\<bar> < 2 ^ 1024" using \<open>nat \<bar>x\<bar> < 2 ^ 53\<close>
    by (rule less_le_trans) simp
  moreover have "sgn x * \<bar>x\<bar> = x" by (simp add: mult_sgn_abs)
  ultimately show ?thesis using r by (simp add: toNumber_def Let_def)
qed

lemma length_chars: "length chars = 36"
  by (simp add: chars_def)

lemma math_random_range: "math_random n < 2 ^ 53"
  by (simp add: math_random_def)

lemma charAt_random:
  "\<exists>c. charAt chars (randomIndex (math_random n) (length chars)) = [c] \<and> c \<in> set chars"
  using randomIndex_range [OF math_random_range, of n] unfolding charAt_def
  by (auto simp: length_chars nat_less_iff)

lemma length_concat_singletons:
  assumes "\<forall>x\<in>set xs. \<exists>c. f x = [c] \<and> c \<in> A"
  shows "length (concat (map f xs)) = length xs \<and> set (concat (map f xs)) \<subseteq> A"
  using assms
proof (induction xs)
  case Nil
  then show ?case by simp
next
  case (Cons a xs)
  then obtain c where "f a = [c]" "c \<in> A" by auto
  with Cons show ?case by simp
qed

lemma generateCode_shape: "length (generateCode rnd off) = 8 \<and> set (generateCode rnd off) \<subseteq> set chars"
  unfolding generateCode_def
  using length_concat_singletons [of "[0..<8]"
      "\<lambda>i. charAt chars (randomIndex (math_random (rnd (off + i))) (length chars))" "set chars"]
    charAt_random by simp

lemma uniqueCode_sound:
  assumes "uniqueCode rnd off existing = Some c"
  shows "c \<notin> set existing \<and>
   (\<exists>k. c = generateCode rnd (off + 8 * k) \<and> (\<forall>j<k. generateCode rnd (off + 8 * j) \<in> set existing))"
proof -
  let ?Q = "\<lambda>rnd off existing c. c \<notin> set existing \<and>
   (\<exists>k. c = generateCode rnd (off + 8 * k) \<and> (\<forall>j<k. generateCode rnd (off + 8 * j) \<in> set existing))"
  have step: "?Q rnd off existing c"
    if IH: "\<And>rnd off existing c. f rnd off existing = Some c \<Longrightarrow> ?Q rnd off existing c"
    and body: "(let bookingCode = generateCode rnd off in
      if bookingCode \<in> set existing then f rnd (off + 8) existing
      else Some bookingCode) = Some c"
    for f rnd off existing c
  proof (cases "generateCode rnd off \<in> set existing")
    case True
    with body have "f rnd (off + 8) existing = Some c" by (simp add: Let_def)
    from IH [OF this] obtain k where
      k: "c \<notin> set existing" "c = generateCode rnd (off + 8 + 8 * k)"
         "\<forall>j<k. generateCode rnd (off + 8 + 8 * j) \<in> set existing" by blast
    have "\<forall>j<Suc k. generateCode rnd (off + 8 * j) \<in> set existing"
    proof (intro allI impI)
      fix j assume "j < Suc k"
      show "generateCode rnd (off + 8 * j) \<in> set existing"
      proof (cases j)
        case 0 then show ?thesis using True by simp
      next
        case (Suc i)
        with \<open>j < Suc k\<close> have "i < k" by simp
        with k(3) have "generateCode rnd (off + 8 + 8 * i) \<in> set existing" by blast
        then show ?thesis using Suc by (simp add: add.assoc)
      qed
    qed
    moreover have "c = generateCode rnd (off + 8 * Suc k)" using k(2) by (simp add: add.assoc)
    ultimately show ?thesis using k(1) by blast
  next
    case False
    with body have "c = generateCode rnd off" by (simp add: Let_def)
    with False show ?thesis by (intro conjI exI [of _ 0]) auto
  qed
  show ?thesis
    by (rule uniqueCode.raw_induct [where P = ?Q, OF step assms])
qed

lemma uniqueCode_terminates:
  "generateCode rnd (off + 8 * k) \<notin> set existing \<Longrightarrow> \<exists>c. uniqueCode rnd off existing = Some c"
proof (induction k arbitrary: off)
  case 0
  then show ?case by (subst uniqueCode.simps) (simp add: Let_def)
next
  case (Suc k)
  then have "generateCode rnd ((off + 8) + 8 * k) \<notin> set existing" by (simp add: add.assoc)
  from Suc.IH [OF this] obtain c where "uniqueCode rnd (off + 8) existing = Some c" by blast
  then show ?case by (subst uniqueCode.simps) (simp add: Let_def)
qed

lemma uniqueCode_fresh:
  "generateCode rnd off \<notin> set existing \<Longrightarrow>
   uniqueCode rnd off existing = Some (generateCode rnd off)"
  by (subst uniqueCode.simps) (simp add: Let_def)

subsection \<open>Evaluation of the code generator\<close>

lemma upt_0_8: "[0..<8] = [0, 1, 2, 3, 4, 5, 6, 7]"
  by (simp add: upt_rec)

lemma randomIndex_0: "randomIndex 0 36 = 0"
  by (simp add: randomIndex_def roundToDouble_exact)

lemma randomIndex_half: "randomIndex (2 ^ 52) 36 = 18"
proof -
  have "bitlen (2 ^ 52 * 36) = Suc 57" by (rule bitlen_eq) simp_all
  then show ?thesis by (simp add: randomIndex_def roundToDouble_def Let_def)
qed

lemma randomIndex_half_numeral: "randomIndex 4503599627370496 36 = 18"
  using randomIndex_half by simp

lemma randomIndex_rounds_up: "randomIndex 8756999275442631 36 = 35"
proof -
  have "bitlen (8756999275442631 * 36) = Suc 58" by (rule bitlen_eq) simp_all
  then show ?thesis by (simp add: randomIndex_def roundToDouble_def Let_def)
qed

lemma gen_A: "generateCode rnd_A off = ''AAAAAAAA''"
  by (simp add: generateCode_def charAt_def length_chars math_random_def upt_0_8 rnd_A_def
        randomIndex_0) (simp add: chars_def)

lemma gen_AS0: "generateCode rnd_AS 0 = ''AAAAAAAA''"
  by (simp add: generateCode_def charAt_def length_chars math_random_def upt_0_8 rnd_AS_def
        randomIndex_0) (simp add: chars_def)

lemma gen_AS8: "generateCode rnd_AS 8 = ''SSSSSSSS''"
  by (simp add: generateCode_def charAt_def length_chars math_random_def upt_0_8 rnd_AS_def
        randomIndex_half_numeral) (simp add: chars_def)

lemma unique_AS: "uniqueCode rnd_AS 0 [''AAAAAAAA''] = Some ''SSSSSSSS''"
  apply (subst uniqueCode.simps)
  apply (simp add: gen_AS0 Let_def)
  apply (subst uniqueCode.simps)
  apply (simp add: gen_AS8 Let_def)
  done

section \<open>The outcomes of a save and of the create handler\<close>

lemma Booking_create_failure:
  "Booking_create rnd code0 u r amount s = Some (Inl e, s') \<Longrightarrow> s' = s"
  unfolding Booking_create_def
  by (auto simp: Let_def split: if_splits option.splits)

lemma Booking_create_success:
  assumes "Booking_create rnd code0 u r amount s = Some (Inr b, s')"
  shows "\<exists>code. schemaValid code0 r amount \<and>
           uniqueCode rnd 0 (map bookingCode (bookings s)) = Some code \<and>
           b = newBooking u r amount code \<and>
           s' = s\<lparr>bookings := bookings s @ [b]\<rparr>"
  using assms unfolding Booking_create_def
  by (auto simp: Let_def split: if_splits option.splits)

lemma Booking_create_no_code:
  "Booking_create rnd None u r amount s = Some (Inl ServerError, s)"
  by (simp add: Booking_create_def schemaValid_def)

lemma createBooking_unchanged:
  "createBooking rnd u r s = Some (res, s') \<Longrightarrow> s' = s"
  unfolding createBooking_def
  by (auto simp: Let_def Booking_create_no_code split: if_splits option.splits)

lemma createBooking_failure:
  "createBooking rnd u r s = Some (Inl e, s') \<Longrightarrow> s' = s"
  by (rule createBooking_unchanged)

lemma createBooking_no_success:
  "createBooking rnd u r s \<noteq> Some (Inr b, s')"
  unfolding createBooking_def
  by (auto simp: Let_def Booking_create_no_code split: if_splits option.splits)

lemma createBooking_returns:
  "createBooking rnd u r s \<noteq> None"
  unfolding createBooking_def
  by (auto simp: Let_def Booking_create_no_code split: if_splits option.splits)

lemma createBooking_passes:
  assumes "validCreate r"
    and "movies s (movieId r) = Some m"
    and "find (matchesRequest (showtimeDate r) (showtimeTime r)) (showtimes m) = Some st"
    and "reqQuantity r \<le> availableSeats st"
    and "conflictingSeats (reqSeats r)
             (bookedSeats (bookings s) (movieId r) (showtimeDate r) (showtimeTime r)) = []"
  shows "createBooking rnd u r s = Some (Inl ServerError, s)"
  using assms unfolding createBooking_def
  by (simp add: Let_def Booking_create_no_code)

lemma bookingCode_newBooking: "bookingCode (newBooking u r a code) = code"
  by (simp add: newBooking_def)

section \<open>Booking codes\<close>

lemma Booking_create_codes:
  assumes "Booking_create rnd code0 u r amount s = Some (res, s')"
    and "distinct (map bookingCode (bookings s))"
    and "list_all (\<lambda>b. length (bookingCode b) = 8 \<and> set (bookingCode b) \<subseteq> set chars) (bookings s)"
  shows "distinct (map bookingCode (bookings s')) \<and>
         list_all (\<lambda>b. length (bookingCode b) = 8 \<and> set (bookingCode b) \<subseteq> set chars) (bookings s')"
proof (cases res)
  case (Inl e)
  with assms(1) have "s' = s" using Booking_create_failure by blast
  with assms show ?thesis by simp
next
  case (Inr b)
  with assms(1) obtain code where
    c: "uniqueCode rnd 0 (map bookingCode (bookings s)) = Some code"
    and b: "b = newBooking u r amount code"
    and s': "s' = s\<lparr>bookings := bookings s @ [b]\<rparr>"
    using Booking_create_success [of rnd code0 u r amount s b s'] by blast
  from uniqueCode_sound [OF c] obtain k where
    fresh: "code \<notin> set (map bookingCode (bookings s))" and k: "code = generateCode rnd (0 + 8 * k)"
    by blast
  have shape: "length code = 8 \<and> set code \<subseteq> set chars"
    using generateCode_shape [of rnd "0 + 8 * k"] k by simp
  have bs: "bookings s' = bookings s @ [b]" using s' by simp
  have "bookingCode b = code" using b by (simp add: bookingCode_newBooking)
  with bs fresh shape assms(2,3) show ?thesis by simp
qed

lemma Booking_create_fresh:
  assumes "Booking_create rnd code0 u r amount s = Some (Inr b, s')"
  shows "bookingCode b \<notin> set (map bookingCode (bookings s)) \<and> length (bookingCode b) = 8 \<and>
         set (bookingCode b) \<subseteq> set chars \<and> bookings s' = bookings s @ [b]"
proof -
  from Booking_create_success [OF assms] obtain code where
    c: "uniqueCode rnd 0 (map bookingCode (bookings s)) = Some code"
    and b: "b = newBooking u r amount code"
    and s': "s' = s\<lparr>bookings := bookings s @ [b]\<rparr>" by blast
  from uniqueCode_sound [OF c] obtain k where
    fresh: "code \<notin> set (map bookingCode (bookings s))" and k: "code = generateCode rnd (0 + 8 * k)"
    by blast
  have "length code = 8 \<and> set code \<subseteq> set chars"
    using generateCode_shape [of rnd "0 + 8 * k"] k by simp
  moreover have "bookingCode b = code" using b by (simp add: bookingCode_newBooking)
  ultimately show ?thesis using fresh s' by simp
qed

lemma createAll_codes:
  assumes "createAll docs s = Some s'"
    and "distinct (map bookingCode (bookings s))"
    and "list_all (\<lambda>b. length (bookingCode b) = 8 \<and> set (bookingCode b) \<subseteq> set chars) (bookings s)"
  shows "distinct (map bookingCode (bookings s')) \<and>
         list_all (\<lambda>b. length (bookingCode b) = 8 \<and> set (bookingCode b) \<subseteq> set chars) (bookings s')"
  using assms
proof (induction docs arbitrary: s)
  case Nil
  then show ?case by simp
next
  case (Cons doc docs)
  obtain rnd code0 u r amount where doc: "doc = (rnd, code0, u, r, amount)" by (cases doc) auto
  from Cons.prems(1) doc obtain res s1 where
    step: "Booking_create rnd code0 u r amount s = Some (res, s1)" and rest: "createAll docs s1 = Some s'"
    by (auto split: option.splits)
  from Booking_create_codes [OF step Cons.prems(2,3)] Cons.IH [OF rest] show ?case by blast
qed

lemma save_A1:
  "Booking_create rnd_A (Some ''X'') 7 (ex_request [''A1''] 1 1728000000000) 10
     \<lparr>movies = [0 \<mapsto> ex_movie], bookings = []\<rparr> =
   Some (Inr ex_booking_A1, \<lparr>movies = [0 \<mapsto> ex_movie], bookings = [ex_booking_A1]\<rparr>)"
  by (simp add: Booking_create_def schemaValid_def ex_request_def uniqueCode_fresh gen_A
        ex_booking_A1_def Let_def)

lemma save_A2:
  "Booking_create rnd_AS (Some ''X'') 7 (ex_request [''A2''] 1 1728000000000) 10
     \<lparr>movies = [0 \<mapsto> ex_movie], bookings = [ex_booking_A1]\<rparr> =
   Some (Inr ex_booking_A2, \<lparr>movies = [0 \<mapsto> ex_movie], bookings = [ex_booking_A1, ex_booking_A2]\<rparr>)"
  by (simp add: Booking_create_def schemaValid_def ex_request_def unique_AS
        ex_booking_A1_def ex_booking_A2_def newBooking_def Let_def)

text \<open>
  Claim C9. A generated code has exactly 8 characters, each of the 36-symbol alphabet A-Z0-9.
  The loop returns a candidate only if no stored booking bears it, and the one it returns
  is the first candidate that is free, every earlier one being taken; it returns as soon
  as some round draws a free code. A save that goes through appends a booking whose code
  no stored booking bears. Hence a run of saves from an empty collection leaves as many
  distinct codes as bookings.
\<close>

theorem booking_codes_unique:
  "length (generateCode rnd off) = 8 \<and> set (generateCode rnd off) \<subseteq> set chars \<and>
   chars = ''ABCDEFGHIJKLMNOPQRSTUVWXYZ0123456789'' \<and> length chars = 36 \<and>
   (uniqueCode rnd off existing = Some c \<longrightarrow>
      c \<notin> set existing \<and>
      (\<exists>k. c = generateCode rnd (off + 8 * k) \<and>
           (\<forall>j<k. generateCode rnd (off + 8 * j) \<in> set existing))) \<and>
   (generateCode rnd (off + 8 * n) \<notin> set existing \<longrightarrow>
      (\<exists>c. uniqueCode rnd off existing = Some c)) \<and>
   (Booking_create rnd code0 u r amount s = Some (Inr b, s1) \<longrightarrow>
      bookingCode b \<notin> set (map bookingCode (bookings s)) \<and> length (bookingCode b) = 8 \<and>
      set (bookingCode b) \<subseteq> set chars \<and> bookings s1 = bookings s @ [b]) \<and>
   (createAll docs \<lparr>movies = ms, bookings = []\<rparr> = Some s' \<longrightarrow>
      distinct (map bookingCode (bookings s')) \<and>
      card (set (map bookingCode (bookings s'))) = length (bookings s') \<and>
      list_all (\<lambda>b. length (bookingCode b) = 8 \<and> set (bookingCode b) \<subseteq> set chars) (bookings s'))"
proof -
  have run: "distinct (map bookingCode (bookings s')) \<and>
      card (set (map bookingCode (bookings s'))) = length (bookings s') \<and>
      list_all (\<lambda>b. length (bookingCode b) = 8 \<and> set (bookingCode b) \<subseteq> set chars) (bookings s')"
    if "createAll docs \<lparr>movies = ms, bookings = []\<rparr> = Some s'"
  proof -
    from createAll_codes [OF that] have
      d: "distinct (map bookingCode (bookings s'))" and
      l: "list_all (\<lambda>b. length (bookingCode b) = 8 \<and> set (bookingCode b) \<subseteq> set chars) (bookings s')"
      by simp_all
    from d have "card (set (map bookingCode (bookings s'))) = length (map bookingCode (bookings s'))"
      by (rule distinct_card)
    with d l show ?thesis by simp
  qed
  show ?thesis
    using generateCode_shape [of rnd off] length_chars uniqueCode_sound [of rnd off existing c] run
      Booking_create_fresh [of rnd code0 u r amount s b s1]
      uniqueCode_terminates [of rnd off n existing]
    by (simp add: chars_def)
qed

theorem booking_codes_unique_witness:
  "uniqueCode rnd_AS 0 [''AAAAAAAA''] = Some ''SSSSSSSS'' \<and>
   generateCode rnd_AS 0 \<in> set [''AAAAAAAA''] \<and>
   ''SSSSSSSS'' \<notin> set [''AAAAAAAA''] \<and>
   Booking_create rnd_AS (Some ''X'') 7 (ex_request [''A2''] 1 1728000000000) 10
     \<lparr>movies = [0 \<mapsto> ex_movie], bookings = [ex_booking_A1]\<rparr> =
   Some (Inr ex_booking_A2, \<lparr>movies = [0 \<mapsto> ex_movie], bookings = [ex_booking_A1, ex_booking_A2]\<rparr>) \<and>
   bookingCode ex_booking_A1 = ''AAAAAAAA'' \<and> bookingCode ex_booking_A2 = ''SSSSSSSS'' \<and>
   (\<exists>s'. createAll [(rnd_A, Some ''X'', 7, ex_request [''A1''] 1 1728000000000, 10),
                     (rnd_AS, Some ''X'', 7, ex_request [''A2''] 1 1728000000000, 10)]
             \<lparr>movies = [0 \<mapsto> ex_movie], bookings = []\<rparr> = Some s' \<and>
         map bookingCode (bookings s') = [''AAAAAAAA'', ''SSSSSSSS''] \<and>
         distinct (map bookingCode (bookings s')) \<and>
         card (set (map bookingCode (bookings s'))) = length (bookings s'))"
proof -
  let ?docs = "[(rnd_A, Some ''X'', 7, ex_request [''A1''] 1 1728000000000, 10),
                (rnd_AS, Some ''X'', 7, ex_request [''A2''] 1 1728000000000, 10)]"
  have codes12: "bookingCode ex_booking_A1 = ''AAAAAAAA''" "bookingCode ex_booking_A2 = ''SSSSSSSS''"
    by (simp_all add: ex_booking_A1_def ex_booking_A2_def bookingCode_newBooking)
  have run: "\<exists>s'. createAll ?docs \<lparr>movies = [0 \<mapsto> ex_movie], bookings = []\<rparr> = Some s' \<and>
         map bookingCode (bookings s') = [''AAAAAAAA'', ''SSSSSSSS'']"
    using save_A1 save_A2 codes12 by simp
  then obtain s' where s': "createAll ?docs \<lparr>movies = [0 \<mapsto> ex_movie], bookings = []\<rparr> = Some s'"
    and codes: "map bookingCode (bookings s') = [''AAAAAAAA'', ''SSSSSSSS'']" by (elim exE conjE)
  have "distinct (map bookingCode (bookings s')) \<and>
        card (set (map bookingCode (bookings s'))) = length (bookings s')"
    using booking_codes_unique [where rnd = rnd_AS and off = 0 and existing = "[''AAAAAAAA'']"
        and c = "''SSSSSSSS''" and docs = ?docs and ms = "[0 \<mapsto> ex_movie]" and s' = s'] s'
    by simp
  with s' codes have "\<exists>s'. createAll ?docs \<lparr>movies = [0 \<mapsto> ex_movie], bookings = []\<rparr> = Some s' \<and>
         map bookingCode (bookings s') = [''AAAAAAAA'', ''SSSSSSSS''] \<and>
         distinct (map bookingCode (bookings s')) \<and>
         card (set (map bookingCode (bookings s'))) = length (bookings s')"
    by (intro exI [of _ s']) simp
  then show ?thesis
    using unique_AS gen_AS0 save_A2 codes12 by simp
qed

section \<open>Lists, scans and the seat counter\<close>

lemma find_update_first:
  "find P xs = Some x \<Longrightarrow> P (f x) \<Longrightarrow> find P (update_first P f xs) = Some (f x)"
  by (induction xs) (auto split: if_splits)

lemma find_Some_holds: "find P xs = Some x \<Longrightarrow> P x \<and> x \<in> set xs"
  by (induction xs) (auto split: if_splits)

lemma matchesRequest_availableSeats [simp]:
  "matchesRequest d t (st\<lparr>availableSeats := n\<rparr>) = matchesRequest d t st"
  by (simp add: matchesRequest_def)

lemma matchesBooking_availableSeats [simp]:
  "matchesBooking b (st\<lparr>availableSeats := n\<rparr>) = matchesBooking b st"
  by (simp add: matchesBooking_def)

lemma movies_decrementSeats:
  "movies (decrementSeats r m s) (movieId r) =
     Some (m\<lparr>showtimes := update_first (matchesRequest (showtimeDate r) (showtimeTime r))
              (\<lambda>st. st\<lparr>availableSeats := availableSeats st - reqQuantity r\<rparr>) (showtimes m)\<rparr>)"
  by (simp add: decrementSeats_def)

lemma set_bookedSeats:
  "set (bookedSeats bs mid d t) =
     (\<Union>b \<in> {b \<in> set bs. movie b = mid \<and> showtime_date b = d \<and> showtime_time b = t \<and>
                  (status b = Pending \<or> status b = Confirmed)}. set (seats b))"
  by (auto simp: bookedSeats_def existingBookings_def)

lemma conflictingSeats_empty:
  "conflictingSeats requested booked = [] \<longleftrightarrow> set requested \<inter> set booked = {}"
  by (auto simp: conflictingSeats_def filter_empty_conv)

lemma set_conflictingSeats:
  "set (conflictingSeats requested booked) = set requested \<inter> set booked"
  by (auto simp: conflictingSeats_def)

lemma newBooking_fields:
  "user (newBooking u r a code) = u"
  "movie (newBooking u r a code) = movieId r"
  "showtime_date (newBooking u r a code) = showtimeDate r"
  "showtime_time (newBooking u r a code) = showtimeTime r"
  "seats (newBooking u r a code) = reqSeats r"
  "quantity (newBooking u r a code) = reqQuantity r"
  "totalAmount (newBooking u r a code) = a"
  "status (newBooking u r a code) = Pending"
  by (simp_all add: newBooking_def)

lemma booked_contains_active:
  "b \<in> set bs \<Longrightarrow> status b = Pending \<or> status b = Confirmed \<Longrightarrow>
   set (seats b) \<subseteq> set (bookedSeats bs (movie b) (showtime_date b) (showtime_time b))"
  by (auto simp: set_bookedSeats)

lemma decrementSeats_showtime:
  assumes "find (matchesRequest (showtimeDate r) (showtimeTime r)) (showtimes m) = Some st"
  shows "\<exists>m'. movies (decrementSeats r m s) (movieId r) = Some m' \<and>
           find (matchesRequest (showtimeDate r) (showtimeTime r)) (showtimes m') =
             Some (st\<lparr>availableSeats := availableSeats st - reqQuantity r\<rparr>)"
proof -
  let ?P = "matchesRequest (showtimeDate r) (showtimeTime r)"
  let ?f = "\<lambda>st. st\<lparr>availableSeats := availableSeats st - reqQuantity r\<rparr>"
  have "?P st" using find_Some_holds [OF assms] by simp
  then have "?P (?f st)" by simp
  from find_update_first [of ?P "showtimes m" st ?f, OF assms this]
  show ?thesis by (simp add: movies_decrementSeats)
qed

lemmas ex_defs = ex_request_def ex_db_def ex_db1_def ex_movie_def ex_showtime_def ex_user_def
  ex_booking_A1_def newBooking_def

lemmas create_defs = createBooking_def validCreate_def matchesRequest_def toDateString_def
  msPerDay_def bookedSeats_def existingBookings_def conflictingSeats_def
  decrementSeats_def conflictMessage_def Let_def

section \<open>Create booking: the claims\<close>

text \<open>
  Claim C8. A create request that fails (movie or showtime not found, capacity exceeded,
  seat conflict, or any other error reply) leaves the store as it was. And whenever the
  movies of the store differ after a request, the booking record has been appended: the
  seat decrement only happens after the booking is created.
\<close>

theorem create_failure_atomic:
  "(createBooking rnd u r s = Some (Inl e, s') \<longrightarrow> s' = s) \<and>
   (createBooking rnd u r s = Some (res, s') \<and> movies s' \<noteq> movies s \<longrightarrow>
      (\<exists>b. res = Inr b \<and> bookings s' = bookings s @ [b]))"
proof (intro conjI impI)
  assume "createBooking rnd u r s = Some (Inl e, s')"
  then show "s' = s" by (rule createBooking_failure)
next
  assume a: "createBooking rnd u r s = Some (res, s') \<and> movies s' \<noteq> movies s"
  then have "s' = s" using createBooking_unchanged by blast
  with a show "\<exists>b. res = Inr b \<and> bookings s' = bookings s @ [b]" by simp
qed

theorem create_failure_atomic_witness:
  "createBooking rnd_A ex_user (ex_request [''A1''] 1 1728000000000) ex_db1 =
     Some (Inl (SeatConflict ''Seats A1 are already booked''), ex_db1) \<and>
   createBooking rnd_A ex_user (ex_request [''A3''] 2 1728000000000) ex_db1 =
     Some (Inl CapacityExceeded, ex_db1) \<and>
   createBooking rnd_A ex_user (ex_request [''A3''] 1 0) ex_db1 =
     Some (Inl ShowtimeNotFound, ex_db1) \<and>
   createBooking rnd_A ex_user ((ex_request [''A3''] 1 1728000000000)\<lparr>movieId := 5\<rparr>) ex_db1 =
     Some (Inl MovieNotFound, ex_db1) \<and>
   createBooking rnd_A ex_user (ex_request [''A3''] 1 1728000000000) ex_db1 =
     Some (Inl ServerError, ex_db1)"
proof -
  have pinned: "createBooking rnd_A ex_user r ex_db1 = Some (Inl e, ex_db1)"
    if "\<exists>s'. createBooking rnd_A ex_user r ex_db1 = Some (Inl e, s')" for r e
  proof -
    from that obtain s' where c: "createBooking rnd_A ex_user r ex_db1 = Some (Inl e, s')"
      by (elim exE)
    have "s' = ex_db1"
      using create_failure_atomic [of rnd_A ex_user r ex_db1 e s'] c by simp
    with c show ?thesis by simp
  qed
  have "createBooking rnd_A ex_user (ex_request [''A1''] 1 1728000000000) ex_db1 =
     Some (Inl (SeatConflict ''Seats A1 are already booked''), ex_db1)"
    by (rule pinned) (simp add: create_defs ex_defs)
  moreover have "createBooking rnd_A ex_user (ex_request [''A3''] 2 1728000000000) ex_db1 =
     Some (Inl CapacityExceeded, ex_db1)"
    by (rule pinned) (simp add: create_defs ex_defs)
  moreover have "createBooking rnd_A ex_user (ex_request [''A3''] 1 0) ex_db1 =
     Some (Inl ShowtimeNotFound, ex_db1)"
    by (rule pinned) (simp add: create_defs ex_defs)
  moreover have "createBooking rnd_A ex_user ((ex_request [''A3''] 1 1728000000000)\<lparr>movieId := 5\<rparr>) ex_db1 =
     Some (Inl MovieNotFound, ex_db1)"
    by (rule pinned) (simp add: create_defs ex_defs)
  moreover have "createBooking rnd_A ex_user (ex_request [''A3''] 1 1728000000000) ex_db1 =
     Some (Inl ServerError, ex_db1)"
    by (rule pinned) (simp add: create_defs ex_defs Booking_create_no_code)
  ultimately show ?thesis by simp
qed

text \<open>
  Claim C10, which the code does not meet. No check ties the quantity to the number of
  seat labels: for a valid request (non-empty time and seats, quantity at least 1) whose
  movie and showtime exist, the capacity check compares \<open>availableSeats\<close> with the
  quantity alone, and the conflict check looks at the seat labels alone. But when both
  pass, the booking is not created: the document handed to \<open>Booking.create\<close> has no
  \<open>bookingCode\<close>, the save fails validation, and the reply is the server error with the
  store unchanged.
\<close>

theorem quantity_not_tied_to_seats:
  assumes "showtimeTime r \<noteq> []" and "reqSeats r \<noteq> []" and "1 \<le> reqQuantity r"
    and "case reqNotes r of None \<Rightarrow> True | Some n \<Rightarrow> length n \<le> 500"
    and "movies s (movieId r) = Some m"
    and "find (matchesRequest (showtimeDate r) (showtimeTime r)) (showtimes m) = Some st"
  shows "(availableSeats st < reqQuantity r \<longrightarrow>
            createBooking rnd u r s = Some (Inl CapacityExceeded, s)) \<and>
         (reqQuantity r \<le> availableSeats st \<and>
          set (reqSeats r) \<inter>
            set (bookedSeats (bookings s) (movieId r) (showtimeDate r) (showtimeTime r)) \<noteq> {} \<longrightarrow>
            createBooking rnd u r s =
              Some (Inl (SeatConflict (conflictMessage (conflictingSeats (reqSeats r)
                (bookedSeats (bookings s) (movieId r) (showtimeDate r) (showtimeTime r))))), s)) \<and>
         (reqQuantity r \<le> availableSeats st \<and>
          set (reqSeats r) \<inter>
            set (bookedSeats (bookings s) (movieId r) (showtimeDate r) (showtimeTime r)) = {} \<longrightarrow>
            createBooking rnd u r s = Some (Inl ServerError, s))"
proof (intro conjI impI)
  have valid: "validCreate r"
    using assms(1-4) by (cases "reqSeats r") (simp_all add: validCreate_def)
  let ?booked = "bookedSeats (bookings s) (movieId r) (showtimeDate r) (showtimeTime r)"
  {
    assume "availableSeats st < reqQuantity r"
    with valid assms(5,6) show "createBooking rnd u r s = Some (Inl CapacityExceeded, s)"
      by (simp add: createBooking_def)
  next
    assume a: "reqQuantity r \<le> availableSeats st \<and> set (reqSeats r) \<inter> set ?booked \<noteq> {}"
    then have "conflictingSeats (reqSeats r) ?booked \<noteq> []"
      by (simp add: conflictingSeats_empty)
    with a valid assms(5,6) show "createBooking rnd u r s =
        Some (Inl (SeatConflict (conflictMessage (conflictingSeats (reqSeats r) ?booked))), s)"
      by (simp add: createBooking_def Let_def)
  next
    assume a: "reqQuantity r \<le> availableSeats st \<and> set (reqSeats r) \<inter> set ?booked = {}"
    then have "conflictingSeats (reqSeats r) ?booked = []"
      by (simp add: conflictingSeats_empty)
    with a show "createBooking rnd u r s = Some (Inl ServerError, s)"
      using createBooking_passes [OF valid assms(5,6)] by simp
  }
qed

theorem quantity_not_tied_to_seats_witness:
  "createBooking rnd_A ex_user (ex_request [''A1''] 1 1728000000000) ex_db =
     Some (Inl ServerError, ex_db) \<and>
   createBooking rnd_A ex_user (ex_request [''A1''] 2 1728000000000) ex_db =
     Some (Inl ServerError, ex_db) \<and>
   createBooking rnd_A ex_user (ex_request [''A1''] 3 1728000000000) ex_db =
     Some (Inl CapacityExceeded, ex_db) \<and>
   createBooking rnd_A ex_user (ex_request [''A1'', ''B7''] 1 1728000000000) ex_db1 =
     Some (Inl (SeatConflict ''Seats A1 are already booked''), ex_db1) \<and>
   bookings ex_db = [] \<and>
   map_option (map availableSeats \<circ> showtimes) (movies ex_db 0) = Some [2]"
proof -
  have found: "find (matchesRequest 1728000000000 ''19:30'') (showtimes ex_movie) = Some ex_showtime"
    by (simp add: ex_defs matchesRequest_def)
  have found1: "find (matchesRequest 1728000000000 ''19:30'')
      (showtimes (ex_movie\<lparr>showtimes := [ex_showtime\<lparr>availableSeats := 1\<rparr>]\<rparr>)) =
      Some (ex_showtime\<lparr>availableSeats := 1\<rparr>)"
    by (simp add: ex_defs matchesRequest_def)
  have passes: "createBooking rnd_A ex_user (ex_request [''A1''] q 1728000000000) ex_db =
     Some (Inl ServerError, ex_db)" if "1 \<le> q" "q \<le> 2" for q
    using quantity_not_tied_to_seats [of "ex_request [''A1''] q 1728000000000" ex_db ex_movie
        ex_showtime rnd_A ex_user] found that
    by (simp add: ex_request_def ex_db_def bookedSeats_def existingBookings_def)
       (simp add: ex_showtime_def)
  have capacity: "createBooking rnd_A ex_user (ex_request [''A1''] 3 1728000000000) ex_db =
     Some (Inl CapacityExceeded, ex_db)"
    using quantity_not_tied_to_seats [of "ex_request [''A1''] 3 1728000000000" ex_db ex_movie
        ex_showtime rnd_A ex_user] found
    by (simp add: ex_request_def ex_db_def) (simp add: ex_showtime_def)
  have conflict: "createBooking rnd_A ex_user (ex_request [''A1'', ''B7''] 1 1728000000000) ex_db1 =
     Some (Inl (SeatConflict ''Seats A1 are already booked''), ex_db1)"
    using quantity_not_tied_to_seats [of "ex_request [''A1'', ''B7''] 1 1728000000000" ex_db1
        "ex_movie\<lparr>showtimes := [ex_showtime\<lparr>availableSeats := 1\<rparr>]\<rparr>"
        "ex_showtime\<lparr>availableSeats := 1\<rparr>" rnd_A ex_user] found1
    by (simp add: ex_request_def ex_db1_def ex_booking_A1_def newBooking_def bookedSeats_def
          existingBookings_def conflictingSeats_def conflictMessage_def)
  have rest: "bookings ex_db = []"
    "map_option (map availableSeats \<circ> showtimes) (movies ex_db 0) = Some [2]"
    by (simp_all add: ex_db_def ex_movie_def ex_showtime_def)
  from passes [of 1] passes [of 2] capacity conflict rest show ?thesis by simp
qed

text \<open>
  Claim C2, which the code does not meet. No create request returns success: every
  request gets a reply and leaves the store as it was, because the document handed to
  \<open>Booking.create\<close> has no \<open>bookingCode\<close> and the required-check of the schema runs
  before the hook that would generate one. On the example store the request for seat
  A1 gets the server error; the counter stays at 2 and the booked set stays empty.
\<close>

theorem create_never_succeeds:
  "createBooking rnd u r s \<noteq> Some (Inr b, s') \<and>
   (\<exists>res. createBooking rnd u r s = Some (res, s)) \<and>
   Booking_create rnd None u0 r amount s = Some (Inl ServerError, s) \<and>
   createBooking rnd_A ex_user (ex_request [''A1''] 1 1728000000000) ex_db =
     Some (Inl ServerError, ex_db) \<and>
   map_option (map availableSeats \<circ> showtimes) (movies ex_db 0) = Some [2] \<and>
   bookedSeats (bookings ex_db) 0 1728000000000 ''19:30'' = []"
proof -
  have "createBooking rnd u r s \<noteq> None" by (rule createBooking_returns)
  then obtain res s1 where c: "createBooking rnd u r s = Some (res, s1)"
    by (cases "createBooking rnd u r s") auto
  then have "s1 = s" by (rule createBooking_unchanged)
  with c have "\<exists>res. createBooking rnd u r s = Some (res, s)" by blast
  moreover have "createBooking rnd_A ex_user (ex_request [''A1''] 1 1728000000000) ex_db =
     Some (Inl ServerError, ex_db)"
    by (simp add: create_defs ex_defs Booking_create_no_code)
  moreover have "map_option (map availableSeats \<circ> showtimes) (movies ex_db 0) = Some [2]"
    "bookedSeats (bookings ex_db) 0 1728000000000 ''19:30'' = []"
    by (simp_all add: ex_db_def ex_movie_def ex_showtime_def bookedSeats_def existingBookings_def)
  ultimately show ?thesis
    using createBooking_no_success [of rnd u r s b s'] Booking_create_no_code [of rnd u0 r amount s]
    by simp
qed

section \<open>Two timestamps of one day\<close>

text \<open>
  Claim C4, which the code does not meet. The showtime lookup compares calendar days, the
  conflict scan compares the stored timestamps: requests dated midnight and 01:00 of the
  same day with the same time label resolve to the same showtime, and on the store that
  holds a pending booking of seat A1 dated midnight the scan keyed by 01:00 sees no
  booked seat, so that the request dated 01:00 passes the conflict check where the one
  dated midnight is refused. But neither request succeeds: both get the server error on
  the store without bookings, and the one dated 01:00 gets it on the store with the
  booking.
\<close>

theorem same_day_scan_mismatch:
  "showtimeDate (ex_request [''A1''] 1 1728000000000) \<noteq>
     showtimeDate (ex_request [''A1''] 1 1728003600000) \<and>
   toDateString (showtimeDate (ex_request [''A1''] 1 1728000000000)) =
     toDateString (showtimeDate (ex_request [''A1''] 1 1728003600000)) \<and>
   showtimeTime (ex_request [''A1''] 1 1728000000000) =
     showtimeTime (ex_request [''A1''] 1 1728003600000) \<and>
   map_option showtimeId
     (find (matchesRequest 1728000000000 ''19:30'') (showtimes ex_movie)) = Some 0 \<and>
   map_option showtimeId
     (find (matchesRequest 1728003600000 ''19:30'') (showtimes ex_movie)) = Some 0 \<and>
   createBooking rnd_A ex_user (ex_request [''A1''] 1 1728000000000) ex_db =
     Some (Inl ServerError, ex_db) \<and>
   createBooking rnd_AS ex_user (ex_request [''A1''] 1 1728003600000) ex_db =
     Some (Inl ServerError, ex_db) \<and>
   map (\<lambda>b. (seats b, status b, showtime_date b)) (bookings ex_db1) =
     [([''A1''], Pending, 1728000000000)] \<and>
   bookedSeats (bookings ex_db1) 0 1728000000000 ''19:30'' = [''A1''] \<and>
   bookedSeats (bookings ex_db1) 0 1728003600000 ''19:30'' = [] \<and>
   conflictingSeats [''A1''] (bookedSeats (bookings ex_db1) 0 1728003600000 ''19:30'') = [] \<and>
   createBooking rnd_AS ex_user (ex_request [''A1''] 1 1728000000000) ex_db1 =
     Some (Inl (SeatConflict ''Seats A1 are already booked''), ex_db1) \<and>
   createBooking rnd_AS ex_user (ex_request [''A1''] 1 1728003600000) ex_db1 =
     Some (Inl ServerError, ex_db1)"
  by (simp add: create_defs ex_defs Booking_create_no_code)

section \<open>The outcomes of the cancel handler\<close>

lemma cancelBooking_proceeds:
  assumes "validReason reason" and "findById (bookings s) bid = Some b"
    and "status b = Pending \<or> status b = Confirmed"
    and "user b = uid u \<or> userRole u = Admin"
    and "\<not> withinTwoHours now b"
  shows "cancelBooking now u bid reason s =
           restoreSeats (markCancelled now u reason b)
             (s\<lparr>bookings := (bookings s)[bid := markCancelled now u reason b]\<rparr>)"
  using assms by (auto simp: cancelBooking_def Let_def)


lemma cancelBooking_again:
  assumes "validReason reason" and "findById (bookings s) bid = Some b"
    and "status b = Cancelled"
    and "user b = uid u \<or> userRole u = Admin"
  shows "cancelBooking now u bid reason s = (Inl AlreadyCancelled, s)"
  using assms by (auto simp: cancelBooking_def Let_def)

lemma bookings_restoreSeats: "bookings (snd (restoreSeats b s)) = bookings s"
  by (simp add: restoreSeats_def split: option.splits)

lemma markCancelled_fields [simp]:
  "status (markCancelled now u reason b) = Cancelled"
  "user (markCancelled now u reason b) = user b"
  "movie (markCancelled now u reason b) = movie b"
  "quantity (markCancelled now u reason b) = quantity b"
  "seats (markCancelled now u reason b) = seats b"
  "showtime_date (markCancelled now u reason b) = showtime_date b"
  "showtime_time (markCancelled now u reason b) = showtime_time b"
  "bookingCode (markCancelled now u reason b) = bookingCode b"
  by (simp_all add: markCancelled_def)

lemma matchesBooking_markCancelled [simp]:
  "matchesBooking (markCancelled now u reason b) = matchesBooking b"
  by (rule ext) (simp add: matchesBooking_def)

lemma findById_update:
  "findById xs i = Some x \<Longrightarrow> findById (xs[i := y]) i = Some y"
  by (auto simp: findById_def split: if_splits)

lemma restoreSeats_no_movie:
  "movies s (movie b) = None \<Longrightarrow> restoreSeats b s = (Inr b, s)"
  by (simp add: restoreSeats_def)

lemma restoreSeats_no_showtime:
  "movies s (movie b) = Some m \<Longrightarrow> find (matchesBooking b) (showtimes m) = None \<Longrightarrow>
   restoreSeats b s = (Inr b, s)"
  by (simp add: restoreSeats_def)

lemma restoreSeats_showtime:
  assumes "movies s (movie b) = Some m" and "find (matchesBooking b) (showtimes m) = Some st"
    and "0 \<le> availableSeats st + quantity b"
  shows "\<exists>s' m'. restoreSeats b s = (Inr b, s') \<and> bookings s' = bookings s \<and>
           movies s' (movie b) = Some m' \<and>
           find (matchesBooking b) (showtimes m') =
             Some (st\<lparr>availableSeats := availableSeats st + quantity b\<rparr>)"
proof -
  let ?P = "matchesBooking b"
  let ?f = "\<lambda>st. st\<lparr>availableSeats := availableSeats st + quantity b\<rparr>"
  have "?P st" using find_Some_holds [OF assms(2)] by simp
  then have "?P (?f st)" by simp
  from find_update_first [of ?P "showtimes m" st ?f, OF assms(2) this] assms
  show ?thesis by (simp add: restoreSeats_def)
qed

lemma withinTwoHours_iff:
  "showtimeDateTime b = Some t \<Longrightarrow> withinTwoHours now b \<longleftrightarrow> t - now < 2 * (1000 * 60 * 60)"
proof -
  assume t: "showtimeDateTime b = Some t"
  have "rat_of_int (t - now) / (1000 * 60 * 60) < 2 \<longleftrightarrow> rat_of_int (t - now) < 2 * (1000 * 60 * 60)"
    by (simp add: divide_less_eq)
  also have "\<dots> \<longleftrightarrow> rat_of_int (t - now) < rat_of_int (2 * (1000 * 60 * 60))" by simp
  also have "\<dots> \<longleftrightarrow> t - now < 2 * (1000 * 60 * 60)" by (simp only: of_int_less_iff)
  finally show ?thesis using t by (simp add: withinTwoHours_def hoursDiff_def)
qed

text \<open>A time label whose hours or minutes do not parse gives an invalid date, and the
  window test lets the cancellation through at any time.\<close>

lemma withinTwoHours_invalid:
  "showtimeDateTime b = None \<Longrightarrow> \<not> withinTwoHours now b"
  by (simp add: withinTwoHours_def hoursDiff_def)

lemmas parse_defs = parseInt_def isWhiteSpace_def isDigit_def digitValue_def digitsValue_def
  element_def Let_def

lemmas date_defs = showtimeDateTime_def setHours_def MakeTime_def MakeDate_def TimeClip_def
  dmul_def dadd_def msPerDay_def msPerHour_def msPerMinute_def

lemma label_without_minutes:
  "showtimeDateTime (b\<lparr>showtime_time := ''7 PM''\<rparr>) = None"
  by (simp add: date_defs parse_defs toNumber_exact)


lemma split_examples:
  "split CHR '':'' ''19:30'' = [''19'', ''30'']"
  "split CHR '':'' ''07:05'' = [''07'', ''05'']"
  "split CHR '':'' ''7 PM'' = [''7 PM'']"
  by simp_all


lemma ex_showtimeDateTime: "showtimeDateTime ex_booking_A1 = Some 1728070200000"
  by (simp add: date_defs parse_defs toNumber_exact ex_defs)

lemma ex_findById: "findById (bookings ex_db1) 0 = Some ex_booking_A1"
  by (simp add: findById_def ex_db1_def)

lemma ex_booking_A1_fields:
  "user ex_booking_A1 = 7" "movie ex_booking_A1 = 0" "status ex_booking_A1 = Pending"
  "quantity ex_booking_A1 = 1" "seats ex_booking_A1 = [''A1'']"
  "showtime_date ex_booking_A1 = 1728000000000" "showtime_time ex_booking_A1 = ''19:30''"
  by (simp_all add: ex_booking_A1_def ex_request_def newBooking_def)

section \<open>Cancel booking: the claims\<close>

text \<open>
  Claim C3. Cancelling a pending or confirmed booking, by its owner or an administrator,
  outside the two-hour window: the stored booking becomes cancelled; the first showtime of
  the movie on the booking's calendar day with its time label gains exactly the booking's
  quantity (the counters being non-negative, as the schema demands); when the movie or such a
  showtime is missing, the movies are untouched and the booking is cancelled all the
  same; and a further cancellation of the booking by anyone allowed to cancel it is
  refused as already cancelled, with the store unchanged.
\<close>

theorem cancel_effect:
  assumes "validReason reason" and "findById (bookings s) bid = Some b"
    and "status b = Pending \<or> status b = Confirmed"
    and "user b = uid u \<or> userRole u = Admin"
    and "\<not> withinTwoHours now b"
    and "cancelBooking now u bid reason s = (res, s')"
  shows "bookings s' = (bookings s)[bid := markCancelled now u reason b] \<and>
         findById (bookings s') bid = Some (markCancelled now u reason b) \<and>
         status (markCancelled now u reason b) = Cancelled \<and>
         quantity (markCancelled now u reason b) = quantity b \<and>
         (\<forall>m st. movies s (movie b) = Some m \<and> find (matchesBooking b) (showtimes m) = Some st \<and>
                 0 \<le> availableSeats st + quantity b \<longrightarrow>
            res = Inr (markCancelled now u reason b) \<and>
            (\<exists>m'. movies s' (movie b) = Some m' \<and>
                  find (matchesBooking b) (showtimes m') =
                    Some (st\<lparr>availableSeats := availableSeats st + quantity b\<rparr>))) \<and>
         (movies s (movie b) = None \<or>
          (\<exists>m. movies s (movie b) = Some m \<and> find (matchesBooking b) (showtimes m) = None) \<longrightarrow>
            res = Inr (markCancelled now u reason b) \<and> movies s' = movies s) \<and>
         (\<forall>now2 u2 reason2. validReason reason2 \<and> (user b = uid u2 \<or> userRole u2 = Admin) \<longrightarrow>
            cancelBooking now2 u2 bid reason2 s' = (Inl AlreadyCancelled, s'))"
proof -
  let ?b' = "markCancelled now u reason b"
  let ?s1 = "s\<lparr>bookings := (bookings s)[bid := ?b']\<rparr>"
  have run: "restoreSeats ?b' ?s1 = (res, s')"
    using cancelBooking_proceeds [OF assms(1-5)] assms(6) by simp
  have bs: "bookings s' = (bookings s)[bid := ?b']"
    using bookings_restoreSeats [of ?b' ?s1] run by simp
  have fnd: "findById (bookings s') bid = Some ?b'"
    using bs findById_update [OF assms(2)] by simp
  have restored: "res = Inr ?b' \<and>
            (\<exists>m'. movies s' (movie b) = Some m' \<and>
                  find (matchesBooking b) (showtimes m') =
                    Some (st\<lparr>availableSeats := availableSeats st + quantity b\<rparr>))"
    if "movies s (movie b) = Some m \<and> find (matchesBooking b) (showtimes m) = Some st \<and>
        0 \<le> availableSeats st + quantity b" for m st
    using restoreSeats_showtime [of ?s1 ?b' m st] that run by auto
  have skipped: "res = Inr ?b' \<and> movies s' = movies s"
    if "movies s (movie b) = None \<or>
        (\<exists>m. movies s (movie b) = Some m \<and> find (matchesBooking b) (showtimes m) = None)"
    using that
  proof
    assume "movies s (movie b) = None"
    then show ?thesis using restoreSeats_no_movie [of ?s1 ?b'] run by simp
  next
    assume "\<exists>m. movies s (movie b) = Some m \<and> find (matchesBooking b) (showtimes m) = None"
    then obtain m where "movies s (movie b) = Some m" "find (matchesBooking b) (showtimes m) = None"
      by blast
    then show ?thesis using restoreSeats_no_showtime [of ?s1 ?b' m] run by simp
  qed
  have again: "cancelBooking now2 u2 bid reason2 s' = (Inl AlreadyCancelled, s')"
    if "validReason reason2 \<and> (user b = uid u2 \<or> userRole u2 = Admin)" for now2 u2 reason2
    using cancelBooking_again [of reason2 s' bid ?b' u2 now2] fnd that by simp
  have "status ?b' = Cancelled" "quantity ?b' = quantity b" by simp_all
  with bs fnd restored skipped again show ?thesis by blast
qed

theorem cancel_effect_witness:
  "(\<exists>s' m'. cancelBooking 1728059400000 ex_user 0 None ex_db1 =
       (Inr (markCancelled 1728059400000 ex_user None ex_booking_A1), s') \<and>
     status (markCancelled 1728059400000 ex_user None ex_booking_A1) = Cancelled \<and>
     movies s' 0 = Some m' \<and>
     find (matchesBooking ex_booking_A1) (showtimes m') = Some (ex_showtime\<lparr>availableSeats := 1 + 1\<rparr>) \<and>
     cancelBooking 1728059400001 ex_admin 0 None s' = (Inl AlreadyCancelled, s')) \<and>
   (\<exists>s'. cancelBooking 1728059400000 ex_user 0 None (ex_db1\<lparr>movies := Map.empty\<rparr>) =
       (Inr (markCancelled 1728059400000 ex_user None ex_booking_A1), s') \<and>
     movies s' = Map.empty \<and>
     findById (bookings s') 0 = Some (markCancelled 1728059400000 ex_user None ex_booking_A1))"
proof -
  have owner: "user ex_booking_A1 = uid ex_user \<or> userRole ex_user = Admin"
    by (simp add: ex_user_def ex_booking_A1_fields)
  have valid: "validReason None" by (simp add: validReason_def)
  have active: "status ex_booking_A1 = Pending \<or> status ex_booking_A1 = Confirmed"
    by (simp add: ex_booking_A1_fields)
  have early: "\<not> withinTwoHours 1728059400000 ex_booking_A1"
    using withinTwoHours_iff [OF ex_showtimeDateTime, of 1728059400000] by simp
  obtain res s' where run: "cancelBooking 1728059400000 ex_user 0 None ex_db1 = (res, s')"
    by (cases "cancelBooking 1728059400000 ex_user 0 None ex_db1") auto
  note eff = cancel_effect [OF valid ex_findById active owner early run]
  have m: "movies ex_db1 (movie ex_booking_A1) =
      Some (ex_movie\<lparr>showtimes := [ex_showtime\<lparr>availableSeats := 1\<rparr>]\<rparr>)"
    by (simp add: ex_db1_def ex_booking_A1_fields)
  have f: "find (matchesBooking ex_booking_A1)
      (showtimes (ex_movie\<lparr>showtimes := [ex_showtime\<lparr>availableSeats := 1\<rparr>]\<rparr>)) =
      Some (ex_showtime\<lparr>availableSeats := 1\<rparr>)"
    by (simp add: matchesBooking_def ex_booking_A1_fields ex_showtime_def)
  from eff m f have res: "res = Inr (markCancelled 1728059400000 ex_user None ex_booking_A1)"
    and "\<exists>m'. movies s' (movie ex_booking_A1) = Some m' \<and>
       find (matchesBooking ex_booking_A1) (showtimes m') =
         Some (ex_showtime\<lparr>availableSeats := 1,
            availableSeats := availableSeats (ex_showtime\<lparr>availableSeats := 1\<rparr>) + quantity ex_booking_A1\<rparr>)"
    by (simp_all add: ex_booking_A1_fields)
  then obtain m' where m': "movies s' 0 = Some m'"
    and f': "find (matchesBooking ex_booking_A1) (showtimes m') = Some (ex_showtime\<lparr>availableSeats := 1 + 1\<rparr>)"
    by (auto simp: ex_booking_A1_fields)
  have again: "cancelBooking 1728059400001 ex_admin 0 None s' = (Inl AlreadyCancelled, s')"
    using eff valid by (simp add: ex_admin_def)
  have first: "\<exists>s' m'. cancelBooking 1728059400000 ex_user 0 None ex_db1 =
       (Inr (markCancelled 1728059400000 ex_user None ex_booking_A1), s') \<and>
     status (markCancelled 1728059400000 ex_user None ex_booking_A1) = Cancelled \<and>
     movies s' 0 = Some m' \<and>
     find (matchesBooking ex_booking_A1) (showtimes m') = Some (ex_showtime\<lparr>availableSeats := 1 + 1\<rparr>) \<and>
     cancelBooking 1728059400001 ex_admin 0 None s' = (Inl AlreadyCancelled, s')"
    using run res m' f' again by (intro exI [of _ s'] exI [of _ m']) simp
  have fnd2: "findById (bookings (ex_db1\<lparr>movies := Map.empty\<rparr>)) 0 = Some ex_booking_A1"
    by (simp add: findById_def ex_db1_def)
  obtain res2 s2 where run2:
    "cancelBooking 1728059400000 ex_user 0 None (ex_db1\<lparr>movies := Map.empty\<rparr>) = (res2, s2)"
    by (cases "cancelBooking 1728059400000 ex_user 0 None (ex_db1\<lparr>movies := Map.empty\<rparr>)") auto
  note eff2 = cancel_effect [OF valid fnd2 active owner early run2]
  from eff2 have "res2 = Inr (markCancelled 1728059400000 ex_user None ex_booking_A1)"
    "movies s2 = Map.empty"
    "findById (bookings s2) 0 = Some (markCancelled 1728059400000 ex_user None ex_booking_A1)"
    by auto
  with run2 have second: "\<exists>s'. cancelBooking 1728059400000 ex_user 0 None (ex_db1\<lparr>movies := Map.empty\<rparr>) =
       (Inr (markCancelled 1728059400000 ex_user None ex_booking_A1), s') \<and>
     movies s' = Map.empty \<and>
     findById (bookings s') 0 = Some (markCancelled 1728059400000 ex_user None ex_booking_A1)"
    by simp
  from first second show ?thesis by blast
qed



section \<open>The admin status route\<close>

lemmas update_defs = updateShowtime_def validField_def updateBookingStatus_def findById_def
  reasonOr_def Let_def

lemma ex_cancel_restores:
  "map_option (map availableSeats \<circ> showtimes)
     (movies (snd (cancelBooking 1728059400000 ex_admin 0 None ex_db1)) 0) = Some [2]"
proof -
  have early: "\<not> withinTwoHours 1728059400000 ex_booking_A1"
    using withinTwoHours_iff [OF ex_showtimeDateTime, of 1728059400000] by simp
  then show ?thesis
    by (simp add: cancelBooking_def validReason_def findById_def Let_def ex_db1_def ex_admin_def
          ex_booking_A1_fields restoreSeats_def matchesBooking_def ex_movie_def ex_showtime_def)
qed

text \<open>
  Claim C6, which the code does not meet. The admin status route never changes a movie,
  so a booking it cancels keeps its seats counted as taken: on the example store the
  counter stays at 1, where the cancel route brings it back to 2. And the route has no
  guard on the old status: the booking it has cancelled is then set to confirmed.
\<close>

theorem admin_status_update_skips_lifecycle:
  "movies (snd (updateBookingStatus now u bid newStatus reason s)) = movies s \<and>
   map_option status (findById (bookings ex_db1) 0) = Some Pending \<and>
   map_option quantity (findById (bookings ex_db1) 0) = Some 1 \<and>
   map_option (map availableSeats \<circ> showtimes) (movies ex_db1 0) = Some [1] \<and>
   map_option status (findById (bookings
       (snd (updateBookingStatus 1728059400000 ex_admin 0 Cancelled None ex_db1))) 0) =
     Some Cancelled \<and>
   map_option (map availableSeats \<circ> showtimes)
     (movies (snd (updateBookingStatus 1728059400000 ex_admin 0 Cancelled None ex_db1)) 0) =
     Some [1] \<and>
   map_option (map availableSeats \<circ> showtimes)
     (movies (snd (cancelBooking 1728059400000 ex_admin 0 None ex_db1)) 0) = Some [2] \<and>
   map_option status (findById (bookings
       (snd (updateBookingStatus 1728059400001 ex_admin 0 Confirmed None
          (snd (updateBookingStatus 1728059400000 ex_admin 0 Cancelled None ex_db1))))) 0) =
     Some Confirmed"
proof -
  have "movies (snd (updateBookingStatus now u bid newStatus reason s)) = movies s"
    by (simp add: updateBookingStatus_def Let_def split: option.splits)
  then show ?thesis
    using ex_cancel_restores
    by (simp add: update_defs ex_admin_def ex_db1_def ex_movie_def ex_showtime_def
          ex_booking_A1_fields)
qed

section \<open>The bounds of the seat counter: the claims\<close>

lemma list_all_update_first:
  "list_all Q xs \<Longrightarrow> (\<And>x. find P xs = Some x \<Longrightarrow> Q (f x)) \<Longrightarrow> list_all Q (update_first P f xs)"
  by (induction xs) (auto split: if_splits)

lemma list_all_find: "list_all Q xs \<Longrightarrow> find P xs = Some x \<Longrightarrow> Q x"
  by (induction xs) (auto split: if_splits)

lemma cancelBooking_movies:
  assumes "cancelBooking now u bid reason s = (res, s')"
  shows "movies s' = movies s \<or>
         (\<exists>b m st. findById (bookings s) bid = Some b \<and> movies s (movie b) = Some m \<and>
            find (matchesBooking b) (showtimes m) = Some st \<and>
            0 \<le> availableSeats st + quantity b \<and>
            movies s' = (movies s)(movie b \<mapsto>
              m\<lparr>showtimes := update_first (matchesBooking b)
                (\<lambda>st. st\<lparr>availableSeats := availableSeats st + quantity b\<rparr>) (showtimes m)\<rparr>))"
  using assms
  by (auto simp: cancelBooking_def restoreSeats_def Let_def split: if_splits option.splits)

lemma updateShowtime_movies:
  assumes "updateShowtime u mid sid body s = (res, s')"
  shows "movies s' = movies s \<or>
         (\<exists>m st. movies s mid = Some m \<and> find (\<lambda>st. showtimeId st = sid) (showtimes m) = Some st \<and>
            list_all validField body \<and> 0 \<le> availableSeats (fold setField body st) \<and>
            movies s' = (movies s)(mid \<mapsto>
              m\<lparr>showtimes := update_first (\<lambda>st. showtimeId st = sid)
                (\<lambda>_. fold setField body st) (showtimes m)\<rparr>))"
  using assms
  by (auto simp: updateShowtime_def Let_def split: if_splits option.splits)

lemma recompute_bounds:
  "0 \<le> availableSeats (setField (SetTotalSeats n) st) \<and>
   (0 \<le> n \<and> availableSeats st \<le> totalSeats st \<longrightarrow> withinBounds (setField (SetTotalSeats n) st))"
  by (auto simp: withinBounds_def Let_def)

lemma cancel_keeps:
  assumes "cancelBooking now u bid reason s = (res, s')" and "movies s mid = Some m"
    and "list_all Q (showtimes m)" and "movies s' mid = Some m'"
    and step: "\<And>b m0 st. findById (bookings s) bid = Some b \<Longrightarrow> movies s (movie b) = Some m0 \<Longrightarrow>
       find (matchesBooking b) (showtimes m0) = Some st \<Longrightarrow> 0 \<le> availableSeats st + quantity b \<Longrightarrow>
       Q st \<Longrightarrow> Q (st\<lparr>availableSeats := availableSeats st + quantity b\<rparr>)"
  shows "list_all Q (showtimes m')"
proof -
  from cancelBooking_movies [OF assms(1)] show ?thesis
  proof
    assume "movies s' = movies s"
    with assms show ?thesis by simp
  next
    assume "\<exists>b m st. findById (bookings s) bid = Some b \<and> movies s (movie b) = Some m \<and>
            find (matchesBooking b) (showtimes m) = Some st \<and>
            0 \<le> availableSeats st + quantity b \<and>
            movies s' = (movies s)(movie b \<mapsto>
              m\<lparr>showtimes := update_first (matchesBooking b)
                (\<lambda>st. st\<lparr>availableSeats := availableSeats st + quantity b\<rparr>) (showtimes m)\<rparr>)"
    then obtain b m0 st where b: "findById (bookings s) bid = Some b"
      and m0: "movies s (movie b) = Some m0"
      and st: "find (matchesBooking b) (showtimes m0) = Some st"
      and nn: "0 \<le> availableSeats st + quantity b"
      and s': "movies s' = (movies s)(movie b \<mapsto>
              m0\<lparr>showtimes := update_first (matchesBooking b)
                (\<lambda>st. st\<lparr>availableSeats := availableSeats st + quantity b\<rparr>) (showtimes m0)\<rparr>)"
      by blast
    show ?thesis
    proof (cases "mid = movie b")
      case False
      with s' assms show ?thesis by simp
    next
      case True
      with m0 assms(2) have mm: "m0 = m" by simp
      have "Q st" using list_all_find [OF assms(3)] st mm by simp
      from step [OF b m0 st nn this]
      have new: "Q (st\<lparr>availableSeats := availableSeats st + quantity b\<rparr>)" .
      have "list_all Q (update_first (matchesBooking b)
                (\<lambda>st. st\<lparr>availableSeats := availableSeats st + quantity b\<rparr>) (showtimes m))"
      proof (rule list_all_update_first [OF assms(3)])
        fix x assume "find (matchesBooking b) (showtimes m) = Some x"
        with st mm have "x = st" by simp
        with new show "Q (x\<lparr>availableSeats := availableSeats x + quantity b\<rparr>)" by simp
      qed
      with s' True mm assms(4) show ?thesis by auto
    qed
  qed
qed

lemma ex_update_total:
  "updateShowtime ex_admin 0 0 [SetTotalSeats 1] ex_db_full =
     (Inr (ex_showtime\<lparr>totalSeats := 1, availableSeats := 0\<rparr>),
      ex_db_full\<lparr>movies := [0 \<mapsto> ex_movie\<lparr>showtimes := [ex_showtime\<lparr>totalSeats := 1, availableSeats := 0\<rparr>]\<rparr>]\<rparr>)"
  by (simp add: update_defs ex_admin_def ex_db_full_def ex_movie_def ex_showtime_def)

lemma ex_showtimeDateTime_A12: "showtimeDateTime ex_booking_A12 = Some 1728070200000"
  by (simp add: date_defs parse_defs toNumber_exact ex_defs ex_booking_A12_def)

lemma ex_cancel_over:
  "cancelBooking 1728059400000 ex_user 0 None
     (ex_db_full\<lparr>movies := [0 \<mapsto> ex_movie\<lparr>showtimes := [ex_showtime\<lparr>totalSeats := 1, availableSeats := 0\<rparr>]\<rparr>]\<rparr>) =
   (Inr (markCancelled 1728059400000 ex_user None ex_booking_A12),
    \<lparr>movies = [0 \<mapsto> ex_movie\<lparr>showtimes := [ex_showtime\<lparr>totalSeats := 1, availableSeats := 2\<rparr>]\<rparr>],
     bookings = [markCancelled 1728059400000 ex_user None ex_booking_A12]\<rparr>)"
proof -
  have early: "\<not> withinTwoHours 1728059400000 ex_booking_A12"
    using withinTwoHours_iff [OF ex_showtimeDateTime_A12, of 1728059400000] by simp
  have rest: "restoreSeats (markCancelled 1728059400000 ex_user None ex_booking_A12)
      \<lparr>movies = [0 \<mapsto> ex_movie\<lparr>showtimes := [ex_showtime\<lparr>totalSeats := 1, availableSeats := 0\<rparr>]\<rparr>],
       bookings = [markCancelled 1728059400000 ex_user None ex_booking_A12]\<rparr> =
     (Inr (markCancelled 1728059400000 ex_user None ex_booking_A12),
      \<lparr>movies = [0 \<mapsto> ex_movie\<lparr>showtimes := [ex_showtime\<lparr>totalSeats := 1, availableSeats := 2\<rparr>]\<rparr>],
       bookings = [markCancelled 1728059400000 ex_user None ex_booking_A12]\<rparr>)"
    by (simp add: restoreSeats_def matchesBooking_def toDateString_def msPerDay_def
          ex_booking_A12_def ex_defs)
  show ?thesis
    using early rest
    by (simp add: cancelBooking_def validReason_def findById_def ex_db_full_def Let_def
          ex_user_def ex_booking_A12_def newBooking_def)
qed

lemma update_keeps:
  assumes "updateShowtime u mid2 sid body s = (res, s')" and "movies s mid = Some m"
    and "list_all Q (showtimes m)" and "movies s' mid = Some m'"
    and step: "\<And>st. Q st \<Longrightarrow> list_all validField body \<Longrightarrow>
       0 \<le> availableSeats (fold setField body st) \<Longrightarrow> Q (fold setField body st)"
  shows "list_all Q (showtimes m')"
proof -
  from updateShowtime_movies [OF assms(1)] show ?thesis
  proof
    assume "movies s' = movies s"
    with assms show ?thesis by simp
  next
    assume "\<exists>m st. movies s mid2 = Some m \<and> find (\<lambda>st. showtimeId st = sid) (showtimes m) = Some st \<and>
            list_all validField body \<and> 0 \<le> availableSeats (fold setField body st) \<and>
            movies s' = (movies s)(mid2 \<mapsto>
              m\<lparr>showtimes := update_first (\<lambda>st. showtimeId st = sid)
                (\<lambda>_. fold setField body st) (showtimes m)\<rparr>)"
    then obtain m0 st where m0: "movies s mid2 = Some m0"
      and st: "find (\<lambda>st. showtimeId st = sid) (showtimes m0) = Some st"
      and n: "list_all validField body" and nn: "0 \<le> availableSeats (fold setField body st)"
      and s': "movies s' = (movies s)(mid2 \<mapsto>
              m0\<lparr>showtimes := update_first (\<lambda>st. showtimeId st = sid)
                (\<lambda>_. fold setField body st) (showtimes m0)\<rparr>)"
      by blast
    show ?thesis
    proof (cases "mid = mid2")
      case False
      with s' assms show ?thesis by simp
    next
      case True
      with m0 assms(2) have mm: "m0 = m" by simp
      have "Q st" using list_all_find [OF assms(3)] st mm by simp
      from step [OF this n nn] have new: "Q (fold setField body st)" .
      have "list_all Q (update_first (\<lambda>st. showtimeId st = sid)
                (\<lambda>_. fold setField body st) (showtimes m))"
        by (rule list_all_update_first [OF assms(3)]) (rule new)
      with s' True mm assms(4) show ?thesis by auto
    qed
  qed
qed

lemma decrement_keeps:
  assumes "find (matchesRequest (showtimeDate r) (showtimeTime r)) (showtimes m) = Some st"
    and "list_all Q (showtimes m)" and "movies (decrementSeats r m s) (movieId r) = Some m'"
    and "Q st \<Longrightarrow> Q (st\<lparr>availableSeats := availableSeats st - reqQuantity r\<rparr>)"
  shows "list_all Q (showtimes m')"
proof -
  have "Q st" using list_all_find [OF assms(2) assms(1)] .
  with assms(4) have new: "Q (st\<lparr>availableSeats := availableSeats st - reqQuantity r\<rparr>)" by simp
  have "list_all Q (update_first (matchesRequest (showtimeDate r) (showtimeTime r))
                (\<lambda>st. st\<lparr>availableSeats := availableSeats st - reqQuantity r\<rparr>) (showtimes m))"
  proof (rule list_all_update_first [OF assms(2)])
    fix x assume "find (matchesRequest (showtimeDate r) (showtimeTime r)) (showtimes m) = Some x"
    with assms(1) have "x = st" by simp
    with new show "Q (x\<lparr>availableSeats := availableSeats x - reqQuantity r\<rparr>)" by simp
  qed
  with assms(3) show ?thesis by (auto simp: movies_decrementSeats)
qed

lemma ex_set_available:
  "updateShowtime ex_admin 0 0 [SetAvailableSeats 5] ex_db =
     (Inr (ex_showtime\<lparr>availableSeats := 5\<rparr>),
      ex_db\<lparr>movies := [0 \<mapsto> ex_movie\<lparr>showtimes := [ex_showtime\<lparr>availableSeats := 5\<rparr>]\<rparr>]\<rparr>)"
  by (simp add: update_defs ex_admin_def ex_db_def ex_movie_def ex_showtime_def)

text \<open>
  Claim C7, as the code has it. The lower bound \<open>0 <= availableSeats\<close> holds after each
  mutation: the create route leaves every movie as it was; its decrement, which
  follows the capacity check, keeps the bound; so do the showtime update route for any
  body, the recomputation among them, and the cancel route. The upper bound
  \<open>availableSeats <= totalSeats\<close> is kept by the decrement for a quantity that is not
  negative and by the recomputation of \<open>totalSeats\<close>; the increment of a cancellation
  keeps it when \<open>availableSeats + quantity <= totalSeats\<close> held for the matched
  showtime before.
\<close>

theorem seat_counter_bounds:
  "(createBooking rnd u r s = Some (res1, s') \<longrightarrow> movies s' = movies s) \<and>
   (find (matchesRequest (showtimeDate r) (showtimeTime r)) (showtimes m) = Some st0 \<and>
      \<not> availableSeats st0 < reqQuantity r \<and>
      list_all (\<lambda>st. 0 \<le> availableSeats st) (showtimes m) \<and>
      movies (decrementSeats r m s) (movieId r) = Some m' \<longrightarrow>
      list_all (\<lambda>st. 0 \<le> availableSeats st) (showtimes m')) \<and>
   (find (matchesRequest (showtimeDate r) (showtimeTime r)) (showtimes m) = Some st0 \<and>
      \<not> availableSeats st0 < reqQuantity r \<and> 0 \<le> reqQuantity r \<and>
      list_all withinBounds (showtimes m) \<and>
      movies (decrementSeats r m s) (movieId r) = Some m' \<longrightarrow>
      list_all withinBounds (showtimes m')) \<and>
   0 \<le> availableSeats (setField (SetTotalSeats n) st) \<and>
   (0 \<le> n \<and> availableSeats st \<le> totalSeats st \<longrightarrow> withinBounds (setField (SetTotalSeats n) st)) \<and>
   (updateShowtime u mid2 sid body s = (res2, s') \<and> movies s mid = Some m \<and>
      list_all (\<lambda>st. 0 \<le> availableSeats st) (showtimes m) \<and> movies s' mid = Some m' \<longrightarrow>
      list_all (\<lambda>st. 0 \<le> availableSeats st) (showtimes m')) \<and>
   (updateShowtime u mid2 sid [SetTotalSeats n] s = (res2, s') \<and> movies s mid = Some m \<and>
      list_all withinBounds (showtimes m) \<and> movies s' mid = Some m' \<longrightarrow>
      list_all withinBounds (showtimes m')) \<and>
   (cancelBooking now u bid reason s = (res3, s') \<and> movies s mid = Some m \<and>
      list_all (\<lambda>st. 0 \<le> availableSeats st) (showtimes m) \<and> movies s' mid = Some m' \<longrightarrow>
      list_all (\<lambda>st. 0 \<le> availableSeats st) (showtimes m')) \<and>
   (cancelBooking now u bid reason s = (res3, s') \<and> movies s mid = Some m \<and>
      list_all withinBounds (showtimes m) \<and> movies s' mid = Some m' \<and>
      (\<forall>b m0 st0. findById (bookings s) bid = Some b \<and> movies s (movie b) = Some m0 \<and>
         find (matchesBooking b) (showtimes m0) = Some st0 \<longrightarrow>
         availableSeats st0 + quantity b \<le> totalSeats st0) \<longrightarrow>
      list_all withinBounds (showtimes m'))"
proof (intro conjI impI)
  assume "createBooking rnd u r s = Some (res1, s')"
  then show "movies s' = movies s" using createBooking_unchanged by blast
next
  assume a: "find (matchesRequest (showtimeDate r) (showtimeTime r)) (showtimes m) = Some st0 \<and>
      \<not> availableSeats st0 < reqQuantity r \<and>
      list_all (\<lambda>st. 0 \<le> availableSeats st) (showtimes m) \<and>
      movies (decrementSeats r m s) (movieId r) = Some m'"
  show "list_all (\<lambda>st. 0 \<le> availableSeats st) (showtimes m')"
    by (rule decrement_keeps [of r m st0 "\<lambda>st. 0 \<le> availableSeats st" s m'])
       (use a in simp_all)
next
  assume a: "find (matchesRequest (showtimeDate r) (showtimeTime r)) (showtimes m) = Some st0 \<and>
      \<not> availableSeats st0 < reqQuantity r \<and> 0 \<le> reqQuantity r \<and>
      list_all withinBounds (showtimes m) \<and>
      movies (decrementSeats r m s) (movieId r) = Some m'"
  show "list_all withinBounds (showtimes m')"
    by (rule decrement_keeps [of r m st0 withinBounds s m'])
       (use a in \<open>simp_all add: withinBounds_def\<close>)
next
  show "0 \<le> availableSeats (setField (SetTotalSeats n) st)" using recompute_bounds by blast
next
  assume "0 \<le> n \<and> availableSeats st \<le> totalSeats st"
  then show "withinBounds (setField (SetTotalSeats n) st)" using recompute_bounds by blast
next
  assume a: "updateShowtime u mid2 sid body s = (res2, s') \<and> movies s mid = Some m \<and>
      list_all (\<lambda>st. 0 \<le> availableSeats st) (showtimes m) \<and> movies s' mid = Some m'"
  show "list_all (\<lambda>st. 0 \<le> availableSeats st) (showtimes m')"
    by (rule update_keeps [of u mid2 sid body s res2 s' mid m "\<lambda>st. 0 \<le> availableSeats st" m'])
       (use a in simp_all)
next
  assume a: "updateShowtime u mid2 sid [SetTotalSeats n] s = (res2, s') \<and> movies s mid = Some m \<and>
      list_all withinBounds (showtimes m) \<and> movies s' mid = Some m'"
  show "list_all withinBounds (showtimes m')"
  proof (rule update_keeps [of u mid2 sid "[SetTotalSeats n]" s res2 s' mid m withinBounds m'])
    fix st1 assume "withinBounds st1" "list_all validField [SetTotalSeats n]"
    then show "withinBounds (fold setField [SetTotalSeats n] st1)"
      by (auto simp: withinBounds_def Let_def validField_def)
  qed (use a in simp_all)
next
  assume a: "cancelBooking now u bid reason s = (res3, s') \<and> movies s mid = Some m \<and>
      list_all (\<lambda>st. 0 \<le> availableSeats st) (showtimes m) \<and> movies s' mid = Some m'"
  show "list_all (\<lambda>st. 0 \<le> availableSeats st) (showtimes m')"
    by (rule cancel_keeps [of now u bid reason s res3 s' mid m "\<lambda>st. 0 \<le> availableSeats st" m'])
       (use a in simp_all)
next
  assume a: "cancelBooking now u bid reason s = (res3, s') \<and> movies s mid = Some m \<and>
      list_all withinBounds (showtimes m) \<and> movies s' mid = Some m' \<and>
      (\<forall>b m0 st0. findById (bookings s) bid = Some b \<and> movies s (movie b) = Some m0 \<and>
         find (matchesBooking b) (showtimes m0) = Some st0 \<longrightarrow>
         availableSeats st0 + quantity b \<le> totalSeats st0)"
  show "list_all withinBounds (showtimes m')"
  proof (rule cancel_keeps [of now u bid reason s res3 s' mid m withinBounds m'])
    fix b m0 st0
    assume "findById (bookings s) bid = Some b" "movies s (movie b) = Some m0"
      "find (matchesBooking b) (showtimes m0) = Some st0" "0 \<le> availableSeats st0 + quantity b"
      "withinBounds st0"
    with a show "withinBounds (st0\<lparr>availableSeats := availableSeats st0 + quantity b\<rparr>)"
      by (auto simp: withinBounds_def)
  qed (use a in simp_all)
qed

theorem seat_counter_bounds_witness:
  "movies (snd (the (createBooking rnd_A ex_user (ex_request [''A1''] 1 1728000000000) ex_db))) =
     movies ex_db \<and>
   list_all withinBounds (showtimes ex_movie) \<and>
   (\<exists>m'. movies (decrementSeats (ex_request [''A1''] 1 1728000000000) ex_movie ex_db) 0 = Some m' \<and>
         map availableSeats (showtimes m') = [1] \<and> list_all withinBounds (showtimes m') \<and>
         list_all (\<lambda>st. 0 \<le> availableSeats st) (showtimes m')) \<and>
   withinBounds (setField (SetTotalSeats 1) (ex_showtime\<lparr>availableSeats := 0\<rparr>)) \<and>
   (\<exists>m'. movies (snd (updateShowtime ex_admin 0 0 [SetTotalSeats 1] ex_db_full)) 0 = Some m' \<and>
         list_all withinBounds (showtimes m')) \<and>
   (\<exists>m'. movies (snd (updateShowtime ex_admin 0 0 [SetAvailableSeats 5] ex_db)) 0 = Some m' \<and>
         list_all (\<lambda>st. 0 \<le> availableSeats st) (showtimes m')) \<and>
   (\<exists>m'. movies (snd (cancelBooking 1728059400000 ex_user 0 None ex_db1)) 0 = Some m' \<and>
         list_all withinBounds (showtimes m') \<and>
         list_all (\<lambda>st. 0 \<le> availableSeats st) (showtimes m'))"
proof -
  let ?r = "ex_request [''A1''] 1 1728000000000"
  have b0: "list_all withinBounds (showtimes ex_movie)"
    by (simp add: ex_movie_def ex_showtime_def withinBounds_def)
  have l0: "list_all (\<lambda>st. 0 \<le> availableSeats st) (showtimes ex_movie)"
    by (simp add: ex_movie_def ex_showtime_def)
  have m0: "movies ex_db 0 = Some ex_movie" by (simp add: ex_db_def)
  obtain res0 s0 where c0: "createBooking rnd_A ex_user ?r ex_db = Some (res0, s0)"
    using createBooking_returns [of rnd_A ex_user ?r ex_db] by auto
  have a0: "movies s0 = movies ex_db"
    using seat_counter_bounds [where rnd = rnd_A and u = ex_user and r = ?r and s = ex_db
        and ?res1.0 = res0 and s' = s0] c0 by simp
  have found: "find (matchesRequest (showtimeDate ?r) (showtimeTime ?r)) (showtimes ex_movie) =
      Some ex_showtime"
    by (simp add: ex_defs matchesRequest_def)
  let ?m1 = "ex_movie\<lparr>showtimes := [ex_showtime\<lparr>availableSeats := 1\<rparr>]\<rparr>"
  have dec: "movies (decrementSeats ?r ex_movie ex_db) (movieId ?r) = Some ?m1"
    by (simp add: decrementSeats_def ex_defs matchesRequest_def)
  have cap: "\<not> availableSeats ex_showtime < reqQuantity ?r" "0 \<le> reqQuantity ?r"
    by (simp_all add: ex_defs)
  have d1: "list_all (\<lambda>st. 0 \<le> availableSeats st) (showtimes ?m1)"
    using seat_counter_bounds [where r = ?r and m = ex_movie and ?st0.0 = ex_showtime
        and s = ex_db and m' = ?m1] found cap l0 dec by simp
  have d2: "list_all withinBounds (showtimes ?m1)"
    using seat_counter_bounds [where r = ?r and m = ex_movie and ?st0.0 = ex_showtime
        and s = ex_db and m' = ?m1] found cap b0 dec by simp
  have mfull: "movies ex_db_full 0 = Some (ex_movie\<lparr>showtimes := [ex_showtime\<lparr>availableSeats := 0\<rparr>]\<rparr>)"
    by (simp add: ex_db_full_def)
  have b1: "list_all withinBounds (showtimes (ex_movie\<lparr>showtimes := [ex_showtime\<lparr>availableSeats := 0\<rparr>]\<rparr>))"
    by (simp add: ex_showtime_def withinBounds_def)
  have b2: "withinBounds (setField (SetTotalSeats 1) (ex_showtime\<lparr>availableSeats := 0\<rparr>))"
    using seat_counter_bounds [where n = 1 and st = "ex_showtime\<lparr>availableSeats := 0\<rparr>"]
    by (simp add: ex_showtime_def)
  let ?m2 = "ex_movie\<lparr>showtimes := [ex_showtime\<lparr>totalSeats := 1, availableSeats := 0\<rparr>]\<rparr>"
  let ?s2 = "ex_db_full\<lparr>movies := [0 \<mapsto> ?m2]\<rparr>"
  have b3: "list_all withinBounds (showtimes ?m2)"
    using seat_counter_bounds [where u = ex_admin and ?mid2.0 = 0 and sid = 0 and n = 1
        and s = ex_db_full and ?res2.0 = "Inr (ex_showtime\<lparr>totalSeats := 1, availableSeats := 0\<rparr>)"
        and s' = ?s2 and mid = 0
        and m = "ex_movie\<lparr>showtimes := [ex_showtime\<lparr>availableSeats := 0\<rparr>]\<rparr>" and m' = ?m2]
      ex_update_total b1 mfull by simp
  let ?m5 = "ex_movie\<lparr>showtimes := [ex_showtime\<lparr>availableSeats := 5\<rparr>]\<rparr>"
  let ?s5 = "ex_db\<lparr>movies := [0 \<mapsto> ?m5]\<rparr>"
  have b5: "list_all (\<lambda>st. 0 \<le> availableSeats st) (showtimes ?m5)"
    using seat_counter_bounds [where u = ex_admin and ?mid2.0 = 0 and sid = 0
        and body = "[SetAvailableSeats 5]"
        and s = ex_db and ?res2.0 = "Inr (ex_showtime\<lparr>availableSeats := 5\<rparr>)"
        and s' = ?s5 and mid = 0 and m = ex_movie and m' = ?m5]
      ex_set_available l0 m0 by simp
  obtain res3 s3 where c: "cancelBooking 1728059400000 ex_user 0 None ex_db1 = (res3, s3)"
    by (cases "cancelBooking 1728059400000 ex_user 0 None ex_db1") auto
  have early: "\<not> withinTwoHours 1728059400000 ex_booking_A1"
    using withinTwoHours_iff [OF ex_showtimeDateTime, of 1728059400000] by simp
  let ?m3 = "ex_movie\<lparr>showtimes := [ex_showtime\<lparr>availableSeats := 2\<rparr>]\<rparr>"
  have m3: "movies s3 0 = Some ?m3"
    using c early
    by (simp add: cancelBooking_def validReason_def findById_def Let_def ex_db1_def ex_user_def
          ex_booking_A1_fields restoreSeats_def matchesBooking_def ex_movie_def ex_showtime_def)
       (auto simp: ex_booking_A1_fields)
  have m1: "movies ex_db1 0 = Some ?m1"
    by (simp add: ex_db1_def)
  have b4: "list_all withinBounds (showtimes ?m3)"
    using seat_counter_bounds [where now = 1728059400000 and u = ex_user and bid = 0 and reason = None
        and s = ex_db1 and ?res3.0 = res3 and s' = s3 and mid = 0
        and m = ?m1 and m' = ?m3]
      c m3 m1
    by (simp add: withinBounds_def ex_showtime_def ex_findById ex_booking_A1_fields
          matchesBooking_def ex_movie_def)
  have l4: "list_all (\<lambda>st. 0 \<le> availableSeats st) (showtimes ?m3)"
    using seat_counter_bounds [where now = 1728059400000 and u = ex_user and bid = 0 and reason = None
        and s = ex_db1 and ?res3.0 = res3 and s' = s3 and mid = 0
        and m = ?m1 and m' = ?m3]
      c m3 m1
    by (simp add: ex_showtime_def)
  have dec0: "movies (decrementSeats ?r ex_movie ex_db) 0 = Some ?m1"
    using dec by (simp add: ex_request_def)
  from a0 c0 b0 d1 d2 dec0 b2 b3 b5 b4 l4 mfull ex_update_total ex_set_available c m3
  show ?thesis by (simp add: ex_showtime_def)
qed

text \<open>
  The claim as stated fails in two ways. The showtime update route writes the key
  \<open>availableSeats\<close> of the body as it is: on the example store with no booking the admin
  sets the counter of the two-seat showtime to 5. And on the store where both seats
  are held by a pending booking, the admin lowers \<open>totalSeats\<close> to 1 (the counter is
  clamped to 0), the booking is cancelled, and the counter is 2 where \<open>totalSeats\<close> is 1.
\<close>

theorem seat_counter_bounds_counterexample:
  "map_option showtimes (movies ex_db 0) = Some [ex_showtime] \<and> withinBounds ex_showtime \<and>
   map_option showtimes (movies (snd (updateShowtime ex_admin 0 0 [SetAvailableSeats 5] ex_db)) 0) =
     Some [ex_showtime\<lparr>availableSeats := 5\<rparr>] \<and>
   \<not> withinBounds (ex_showtime\<lparr>availableSeats := 5\<rparr>) \<and>
   map_option showtimes (movies ex_db_full 0) = Some [ex_showtime\<lparr>availableSeats := 0\<rparr>] \<and>
   map (\<lambda>b. (status b, quantity b, seats b)) (bookings ex_db_full) =
     [(Pending, 2, [''A1'', ''A2''])] \<and>
   withinBounds (ex_showtime\<lparr>availableSeats := 0\<rparr>) \<and>
   fst (updateShowtime ex_admin 0 0 [SetTotalSeats 1] ex_db_full) =
     Inr (ex_showtime\<lparr>totalSeats := 1, availableSeats := 0\<rparr>) \<and>
   withinBounds (ex_showtime\<lparr>totalSeats := 1, availableSeats := 0\<rparr>) \<and>
   fst (cancelBooking 1728059400000 ex_user 0 None
          (snd (updateShowtime ex_admin 0 0 [SetTotalSeats 1] ex_db_full))) =
     Inr (markCancelled 1728059400000 ex_user None ex_booking_A12) \<and>
   map_option showtimes
     (movies (snd (cancelBooking 1728059400000 ex_user 0 None
                (snd (updateShowtime ex_admin 0 0 [SetTotalSeats 1] ex_db_full)))) 0) =
     Some [ex_showtime\<lparr>totalSeats := 1, availableSeats := 2\<rparr>] \<and>
   \<not> withinBounds (ex_showtime\<lparr>totalSeats := 1, availableSeats := 2\<rparr>)"
proof -
  have stores: "map_option showtimes (movies ex_db 0) = Some [ex_showtime]"
    "map_option showtimes (movies ex_db_full 0) = Some [ex_showtime\<lparr>availableSeats := 0\<rparr>]"
    "map (\<lambda>b. (status b, quantity b, seats b)) (bookings ex_db_full) =
       [(Pending, 2, [''A1'', ''A2''])]"
    by (simp_all add: ex_db_def ex_movie_def ex_db_full_def ex_booking_A12_def newBooking_def
          ex_request_def)
  have bounds: "withinBounds ex_showtime" "\<not> withinBounds (ex_showtime\<lparr>availableSeats := 5\<rparr>)"
    "withinBounds (ex_showtime\<lparr>availableSeats := 0\<rparr>)"
    "withinBounds (ex_showtime\<lparr>totalSeats := 1, availableSeats := 0\<rparr>)"
    "\<not> withinBounds (ex_showtime\<lparr>totalSeats := 1, availableSeats := 2\<rparr>)"
    by (simp_all add: withinBounds_def ex_showtime_def)
  from stores bounds show ?thesis
    by (simp add: ex_update_total ex_cancel_over ex_set_available)
qed

section \<open>Seat exclusivity: the claim\<close>

lemma seatExclusive_append:
  assumes "seatExclusive bs"
    and "\<And>a. a \<in> set bs \<Longrightarrow> active a \<Longrightarrow> active b \<Longrightarrow> sameSlot a b \<Longrightarrow>
           set (seats a) \<inter> set (seats b) = {}"
  shows "seatExclusive (bs @ [b])"
  unfolding seatExclusive_def
proof (intro allI impI)
  fix i j
  assume i: "i < length (bs @ [b])" and j: "j < length (bs @ [b])"
    and h: "i \<noteq> j \<and> active ((bs @ [b]) ! i) \<and> active ((bs @ [b]) ! j) \<and>
            sameSlot ((bs @ [b]) ! i) ((bs @ [b]) ! j)"
  show "set (seats ((bs @ [b]) ! i)) \<inter> set (seats ((bs @ [b]) ! j)) = {}"
  proof (cases "i < length bs")
    case True
    note iT = True
    show ?thesis
    proof (cases "j < length bs")
      case True
      with iT h assms(1) show ?thesis by (simp add: seatExclusive_def nth_append)
    next
      case False
      with j have "j = length bs" by simp
      with iT h assms(2) [of "bs ! i"] show ?thesis by (simp add: nth_append)
    qed
  next
    case False
    with i have ii: "i = length bs" by simp
    with h j have jj: "j < length bs" by simp
    from ii jj h have "active (bs ! j)" "active b" "sameSlot (bs ! j) b"
      by (auto simp: nth_append sameSlot_def)
    with assms(2) [of "bs ! j"] jj have "set (seats (bs ! j)) \<inter> set (seats b) = {}" by simp
    with ii jj show ?thesis by (auto simp: nth_append)
  qed
qed

lemma seatExclusive_deactivate:
  assumes "seatExclusive bs" and "\<not> active b'"
  shows "seatExclusive (bs[k := b'])"
  unfolding seatExclusive_def
proof (intro allI impI)
  fix i j
  assume i: "i < length (bs[k := b'])" and j: "j < length (bs[k := b'])"
    and h: "i \<noteq> j \<and> active (bs[k := b'] ! i) \<and> active (bs[k := b'] ! j) \<and>
            sameSlot (bs[k := b'] ! i) (bs[k := b'] ! j)"
  from h i assms(2) have ik: "i \<noteq> k" by (auto simp: nth_list_update)
  from h j assms(2) have jk: "j \<noteq> k" by (auto simp: nth_list_update)
  from ik jk i j h assms(1)
  show "set (seats (bs[k := b'] ! i)) \<inter> set (seats (bs[k := b'] ! j)) = {}"
    by (simp add: seatExclusive_def)
qed

lemma cancel_keeps_exclusive:
  assumes "cancelBooking now u bid reason s = (res, s')" and "seatExclusive (bookings s)"
  shows "seatExclusive (bookings s')"
proof -
  have "bookings s' = bookings s \<or>
        (\<exists>b. bookings s' = (bookings s)[bid := markCancelled now u reason b])"
    using assms(1) bookings_restoreSeats
    by (auto simp: cancelBooking_def Let_def restoreSeats_def split: if_splits option.splits)
  then show ?thesis
  proof
    assume "bookings s' = bookings s"
    with assms(2) show ?thesis by simp
  next
    assume "\<exists>b. bookings s' = (bookings s)[bid := markCancelled now u reason b]"
    then obtain b where "bookings s' = (bookings s)[bid := markCancelled now u reason b]" by blast
    moreover have "\<not> active (markCancelled now u reason b)" by (simp add: active_def)
    ultimately show ?thesis using seatExclusive_deactivate [OF assms(2)] by simp
  qed
qed

lemma scan_keeps_exclusive:
  assumes "seatExclusive bs"
    and noconf: "conflictingSeats (reqSeats r)
       (bookedSeats bs (movieId r) (showtimeDate r) (showtimeTime r)) = []"
  shows "seatExclusive (bs @ [newBooking u0 r amount code])"
proof (rule seatExclusive_append [OF assms(1)])
  fix a assume a: "a \<in> set bs" "active a" "sameSlot a (newBooking u0 r amount code)"
  then have "set (seats a) \<subseteq> set (bookedSeats bs (movieId r) (showtimeDate r) (showtimeTime r))"
    using booked_contains_active [of a bs]
    by (simp add: active_def sameSlot_def newBooking_fields)
  moreover from noconf have "set (reqSeats r) \<inter>
      set (bookedSeats bs (movieId r) (showtimeDate r) (showtimeTime r)) = {}"
    by (simp add: conflictingSeats_empty)
  ultimately show "set (seats a) \<inter> set (seats (newBooking u0 r amount code)) = {}"
    by (auto simp: newBooking_fields)
qed

lemma create_keeps_exclusive:
  assumes "createBooking rnd u r s = Some (res, s')" and "seatExclusive (bookings s)"
  shows "seatExclusive (bookings s')"
  using assms createBooking_unchanged [OF assms(1)] by simp

lemma held_seat_refused:
  assumes valid: "validCreate r" and m: "movies s (movieId r) = Some m"
    and st: "find (matchesRequest (showtimeDate r) (showtimeTime r)) (showtimes m) = Some st"
    and b: "b \<in> set (bookings s)" "active b" "movie b = movieId r"
      "showtime_date b = showtimeDate r" "showtime_time b = showtimeTime r"
    and shared: "set (reqSeats r) \<inter> set (seats b) \<noteq> {}"
  shows "(availableSeats st < reqQuantity r \<longrightarrow>
            createBooking rnd u r s = Some (Inl CapacityExceeded, s)) \<and>
         (reqQuantity r \<le> availableSeats st \<longrightarrow>
            createBooking rnd u r s =
              Some (Inl (SeatConflict (conflictMessage (conflictingSeats (reqSeats r)
                (bookedSeats (bookings s) (movieId r) (showtimeDate r) (showtimeTime r))))), s)) \<and>
         set (reqSeats r) \<inter> set (seats b) \<subseteq>
           set (conflictingSeats (reqSeats r)
                (bookedSeats (bookings s) (movieId r) (showtimeDate r) (showtimeTime r)))"
proof -
  let ?booked = "bookedSeats (bookings s) (movieId r) (showtimeDate r) (showtimeTime r)"
  from b have "set (seats b) \<subseteq> set ?booked"
    by (auto simp: set_bookedSeats active_def)
  then have sub: "set (reqSeats r) \<inter> set (seats b) \<subseteq> set (conflictingSeats (reqSeats r) ?booked)"
    by (auto simp: set_conflictingSeats)
  with shared have ne: "conflictingSeats (reqSeats r) ?booked \<noteq> []" by auto
  have cap: "createBooking rnd u r s = Some (Inl CapacityExceeded, s)"
    if "availableSeats st < reqQuantity r"
    using that valid m st by (simp add: createBooking_def)
  have conf: "createBooking rnd u r s =
                Some (Inl (SeatConflict (conflictMessage (conflictingSeats (reqSeats r) ?booked))), s)"
    if "reqQuantity r \<le> availableSeats st"
    using that valid m st ne by (simp add: createBooking_def Let_def)
  from cap conf sub show ?thesis by blast
qed

text \<open>
  Claim C1, as the code has it. On a store that holds an active booking, a valid create
  request for the same movie, the same timestamp and the same time label that asks for
  one of its seats is refused and changes nothing: with the capacity error when the
  showtime has fewer seats left than the quantity asked, with the seat conflict
  otherwise; the conflict message lists the requested seats that are booked, the
  shared ones among them. A booking whose request has passed the conflict scan can be
  added to a seat-exclusive collection, and create and cancel requests keep the
  collection seat-exclusive: no two active bookings of the same movie, timestamp and
  time label share a seat.
\<close>

theorem seat_exclusivity:
  "(validCreate r \<and> movies s (movieId r) = Some m \<and>
    find (matchesRequest (showtimeDate r) (showtimeTime r)) (showtimes m) = Some st \<and>
    b \<in> set (bookings s) \<and> active b \<and> movie b = movieId r \<and>
    showtime_date b = showtimeDate r \<and> showtime_time b = showtimeTime r \<and>
    set (reqSeats r) \<inter> set (seats b) \<noteq> {} \<longrightarrow>
      (availableSeats st < reqQuantity r \<longrightarrow>
         createBooking rnd u r s = Some (Inl CapacityExceeded, s)) \<and>
      (reqQuantity r \<le> availableSeats st \<longrightarrow>
         createBooking rnd u r s =
           Some (Inl (SeatConflict (conflictMessage (conflictingSeats (reqSeats r)
             (bookedSeats (bookings s) (movieId r) (showtimeDate r) (showtimeTime r))))), s)) \<and>
      set (reqSeats r) \<inter> set (seats b) \<subseteq>
        set (conflictingSeats (reqSeats r)
             (bookedSeats (bookings s) (movieId r) (showtimeDate r) (showtimeTime r)))) \<and>
   set (conflictingSeats requested booked) = set requested \<inter> set booked \<and>
   conflictMessage cs = ''Seats '' @ join '', '' cs @ '' are already booked'' \<and>
   (seatExclusive (bookings s) \<and>
    conflictingSeats (reqSeats r)
      (bookedSeats (bookings s) (movieId r) (showtimeDate r) (showtimeTime r)) = [] \<longrightarrow>
      seatExclusive (bookings s @ [newBooking u0 r amount code])) \<and>
   (createBooking rnd u r s = Some (res, s') \<and> seatExclusive (bookings s) \<longrightarrow>
      seatExclusive (bookings s')) \<and>
   (cancelBooking now u2 bid reason s = (res2, s') \<and> seatExclusive (bookings s) \<longrightarrow>
      seatExclusive (bookings s'))"
proof (intro conjI)
  show "validCreate r \<and> movies s (movieId r) = Some m \<and>
    find (matchesRequest (showtimeDate r) (showtimeTime r)) (showtimes m) = Some st \<and>
    b \<in> set (bookings s) \<and> active b \<and> movie b = movieId r \<and>
    showtime_date b = showtimeDate r \<and> showtime_time b = showtimeTime r \<and>
    set (reqSeats r) \<inter> set (seats b) \<noteq> {} \<longrightarrow>
      (availableSeats st < reqQuantity r \<longrightarrow>
         createBooking rnd u r s = Some (Inl CapacityExceeded, s)) \<and>
      (reqQuantity r \<le> availableSeats st \<longrightarrow>
         createBooking rnd u r s =
           Some (Inl (SeatConflict (conflictMessage (conflictingSeats (reqSeats r)
             (bookedSeats (bookings s) (movieId r) (showtimeDate r) (showtimeTime r))))), s)) \<and>
      set (reqSeats r) \<inter> set (seats b) \<subseteq>
        set (conflictingSeats (reqSeats r)
             (bookedSeats (bookings s) (movieId r) (showtimeDate r) (showtimeTime r)))"
    using held_seat_refused [where r = r and s = s and m = m and st = st and b = b
        and rnd = rnd and u = u] by blast
next
  show "set (conflictingSeats requested booked) = set requested \<inter> set booked"
    by (rule set_conflictingSeats)
next
  show "conflictMessage cs = ''Seats '' @ join '', '' cs @ '' are already booked''"
    by (simp add: conflictMessage_def)
next
  show "seatExclusive (bookings s) \<and>
    conflictingSeats (reqSeats r)
      (bookedSeats (bookings s) (movieId r) (showtimeDate r) (showtimeTime r)) = [] \<longrightarrow>
      seatExclusive (bookings s @ [newBooking u0 r amount code])"
    using scan_keeps_exclusive by blast
next
  show "createBooking rnd u r s = Some (res, s') \<and> seatExclusive (bookings s) \<longrightarrow>
      seatExclusive (bookings s')"
    using create_keeps_exclusive by blast
next
  show "cancelBooking now u2 bid reason s = (res2, s') \<and> seatExclusive (bookings s) \<longrightarrow>
      seatExclusive (bookings s')"
    using cancel_keeps_exclusive by blast
qed

theorem seat_exclusivity_witness:
  "bookings ex_db1 = [ex_booking_A1] \<and> seats ex_booking_A1 = [''A1''] \<and>
   status ex_booking_A1 = Pending \<and>
   createBooking rnd_AS ex_user (ex_request [''A1'', ''A2''] 1 1728000000000) ex_db1 =
     Some (Inl (SeatConflict ''Seats A1 are already booked''), ex_db1) \<and>
   createBooking rnd_AS ex_user (ex_request [''A1'', ''A2''] 2 1728000000000) ex_db1 =
     Some (Inl CapacityExceeded, ex_db1) \<and>
   seatExclusive (bookings ex_db) \<and> seatExclusive (bookings ex_db1) \<and>
   seatExclusive (bookings ex_db1 @ [ex_booking_A2]) \<and>
   seatExclusive (bookings (snd (the (createBooking rnd_A ex_user
      (ex_request [''A2''] 1 1728000000000) ex_db1)))) \<and>
   seatExclusive (bookings (snd (cancelBooking 1728059400000 ex_user 0 None ex_db1)))"
proof -
  let ?r = "ex_request [''A1''] 1 1728000000000"
  let ?r2 = "\<lambda>q. ex_request [''A1'', ''A2''] q 1728000000000"
  let ?r3 = "ex_request [''A2''] 1 1728000000000"
  let ?st1 = "ex_showtime\<lparr>availableSeats := 1\<rparr>"
  let ?m1 = "ex_movie\<lparr>showtimes := [?st1]\<rparr>"
  have e0: "seatExclusive (bookings ex_db)" by (simp add: seatExclusive_def ex_db_def)
  have bs1: "bookings ex_db1 = [ex_booking_A1]" by (simp add: ex_db1_def)
  have m1: "movies ex_db1 (movieId (?r2 q)) = Some ?m1" for q
    by (simp add: ex_db1_def ex_request_def)
  have found: "find (matchesRequest (showtimeDate (?r2 q)) (showtimeTime (?r2 q))) (showtimes ?m1) =
      Some ?st1" for q
    by (simp add: ex_request_def ex_movie_def ex_showtime_def matchesRequest_def)
  have held: "ex_booking_A1 \<in> set (bookings ex_db1)" "active ex_booking_A1"
    "movie ex_booking_A1 = movieId (?r2 q)" "showtime_date ex_booking_A1 = showtimeDate (?r2 q)"
    "showtime_time ex_booking_A1 = showtimeTime (?r2 q)"
    "set (reqSeats (?r2 q)) \<inter> set (seats ex_booking_A1) \<noteq> {}" for q
    by (simp_all add: bs1 active_def ex_booking_A1_fields ex_request_def)
  have refused: "(availableSeats ?st1 < reqQuantity (?r2 q) \<longrightarrow>
        createBooking rnd_AS ex_user (?r2 q) ex_db1 = Some (Inl CapacityExceeded, ex_db1)) \<and>
      (reqQuantity (?r2 q) \<le> availableSeats ?st1 \<longrightarrow>
        createBooking rnd_AS ex_user (?r2 q) ex_db1 =
          Some (Inl (SeatConflict (conflictMessage (conflictingSeats (reqSeats (?r2 q))
            (bookedSeats (bookings ex_db1) (movieId (?r2 q)) (showtimeDate (?r2 q))
               (showtimeTime (?r2 q)))))), ex_db1))"
    if q: "1 \<le> q" for q
  proof -
    have "validCreate (?r2 q)" using q by (simp add: validCreate_def ex_request_def)
    with m1 [of q] found [of q] held
      seat_exclusivity [where r = "?r2 q" and s = ex_db1 and m = ?m1 and st = ?st1
        and b = ex_booking_A1 and rnd = rnd_AS and u = ex_user]
    show ?thesis by blast
  qed
  have msg: "conflictMessage (conflictingSeats (reqSeats (?r2 1))
            (bookedSeats (bookings ex_db1) (movieId (?r2 1)) (showtimeDate (?r2 1))
               (showtimeTime (?r2 1)))) =
          ''Seats A1 are already booked''"
    by (simp add: ex_db1_def bookedSeats_def existingBookings_def ex_booking_A1_def newBooking_def
          ex_request_def conflictingSeats_def conflictMessage_def)
  have avail: "availableSeats ?st1 = 1" by simp
  have q: "reqQuantity (?r2 n) = n" for n by (simp add: ex_request_def)
  have conflict: "createBooking rnd_AS ex_user (?r2 1) ex_db1 =
     Some (Inl (SeatConflict ''Seats A1 are already booked''), ex_db1)"
    using refused [of 1] msg avail q [of 1] by simp
  have capacity: "createBooking rnd_AS ex_user (?r2 2) ex_db1 = Some (Inl CapacityExceeded, ex_db1)"
    using refused [of 2] avail q [of 2] by simp
  have scan0: "conflictingSeats (reqSeats ?r)
      (bookedSeats (bookings ex_db) (movieId ?r) (showtimeDate ?r) (showtimeTime ?r)) = []"
    by (simp add: ex_db_def bookedSeats_def existingBookings_def conflictingSeats_def)
  have e1: "seatExclusive (bookings ex_db1)"
    using seat_exclusivity [where s = ex_db and r = ?r and ?u0.0 = 7 and amount = 10
        and code = "''AAAAAAAA''"] e0 scan0
    by (simp add: ex_db_def bs1 ex_booking_A1_def)
  have scan1: "conflictingSeats (reqSeats ?r3)
      (bookedSeats (bookings ex_db1) (movieId ?r3) (showtimeDate ?r3) (showtimeTime ?r3)) = []"
    by (simp add: ex_db1_def bookedSeats_def existingBookings_def conflictingSeats_def
          ex_booking_A1_def newBooking_def ex_request_def)
  have e12: "seatExclusive (bookings ex_db1 @ [ex_booking_A2])"
    using seat_exclusivity [where s = ex_db1 and r = ?r3 and ?u0.0 = 7 and amount = 10
        and code = "''SSSSSSSS''"] e1 scan1
    by (simp add: ex_booking_A2_def)
  obtain res3 s3 where c3: "createBooking rnd_A ex_user ?r3 ex_db1 = Some (res3, s3)"
    using createBooking_returns [of rnd_A ex_user ?r3 ex_db1] by auto
  have e3: "seatExclusive (bookings s3)"
    using seat_exclusivity [where rnd = rnd_A and u = ex_user and r = ?r3 and s = ex_db1
        and res = res3 and s' = s3] c3 e1 by blast
  have e2: "seatExclusive (bookings (snd (cancelBooking 1728059400000 ex_user 0 None ex_db1)))"
    using seat_exclusivity [where now = 1728059400000 and ?u2.0 = ex_user and bid = 0 and reason = None
        and s = ex_db1 and ?res2.0 = "fst (cancelBooking 1728059400000 ex_user 0 None ex_db1)"
        and s' = "snd (cancelBooking 1728059400000 ex_user 0 None ex_db1)"] e1
    by simp
  from bs1 conflict capacity e0 e1 e12 e3 c3 e2 show ?thesis
    by (simp add: ex_booking_A1_fields)
qed

text \<open>
  The claim as stated fails on the order of the checks. On the store where the two seats
  of the showtime are held by pending bookings, one of them of seat A2, a request for
  seat A2 is refused for capacity, not as a seat conflict.
\<close>

theorem seat_exclusivity_counterexample:
  "bookings ex_db_sold = [ex_booking_A1, ex_booking_A2] \<and>
   map_option (map availableSeats \<circ> showtimes) (movies ex_db_sold 0) = Some [0] \<and>
   seats ex_booking_A2 = [''A2''] \<and> status ex_booking_A2 = Pending \<and>
   movie ex_booking_A2 = movieId (ex_request [''A2''] 1 1728000000000) \<and>
   showtime_date ex_booking_A2 = showtimeDate (ex_request [''A2''] 1 1728000000000) \<and>
   showtime_time ex_booking_A2 = showtimeTime (ex_request [''A2''] 1 1728000000000) \<and>
   createBooking rnd_A ex_user (ex_request [''A2''] 1 1728000000000) ex_db_sold =
     Some (Inl CapacityExceeded, ex_db_sold) \<and>
   (\<forall>msg. createBooking rnd_A ex_user (ex_request [''A2''] 1 1728000000000) ex_db_sold \<noteq>
     Some (Inl (SeatConflict msg), ex_db_sold))"
proof -
  have third: "createBooking rnd_A ex_user (ex_request [''A2''] 1 1728000000000) ex_db_sold =
     Some (Inl CapacityExceeded, ex_db_sold)"
    by (simp add: create_defs ex_defs ex_db_sold_def)
  have "seats ex_booking_A2 = [''A2'']" "status ex_booking_A2 = Pending"
    "movie ex_booking_A2 = movieId (ex_request [''A2''] 1 1728000000000)"
    "showtime_date ex_booking_A2 = showtimeDate (ex_request [''A2''] 1 1728000000000)"
    "showtime_time ex_booking_A2 = showtimeTime (ex_request [''A2''] 1 1728000000000)"
    by (simp_all add: ex_booking_A2_def newBooking_fields ex_request_def)
  moreover have "bookings ex_db_sold = [ex_booking_A1, ex_booking_A2]"
    "map_option (map availableSeats \<circ> showtimes) (movies ex_db_sold 0) = Some [0]"
    by (simp_all add: ex_db_sold_def)
  ultimately show ?thesis using third by simp
qed

end
